theory Spec2Isabelle
  imports Complex_Main "HOL-Library.Word"
begin

text \<open>
  A model of \<open>server/database.js\<close> of LightBnB: six operations, each of which builds
  one parameterised SQL statement, hands it to a connection pool and maps the answer to a
  value. The statement texts are the strings of the source, character for character. The
  first half of the theory is about the text and the parameters that \<open>getAllProperties\<close>
  builds and about what each operation makes of the pool's answer, for any pool. The
  second half puts a database behind the pool, tables and the meaning of the statements
  that the operations on users and the property search send, to say what the operations
  return.
\<close>

section \<open>JavaScript values\<close>

text \<open>
  The values an \<open>options\<close> object can hold and that are bound as statement parameters.
  A number is an integer from \<open>-2^53\<close> to \<open>2^53 - 1\<close>, a signed word of 54 bits:
  these are integers that a JavaScript number holds exactly and prints in plain decimal
  digits. \<open>NaN\<close>, fractions, the infinities and numbers of larger magnitude (which
  are printed rounded, or with an exponent) are outside the model.
\<close>

datatype jsval = JUndefined | JNull | JBool bool | JNum "54 word" | JStr string

text \<open>The test JavaScript applies in \<open>if (v)\<close>.\<close>

fun truthy :: "jsval \<Rightarrow> bool" where
  "truthy JUndefined = False"
| "truthy JNull = False"
| "truthy (JBool b) = b"
| "truthy (JNum n) = (n \<noteq> 0)"
| "truthy (JStr s) = (s \<noteq> [])"

text \<open>The decimal digit of a number below ten.\<close>

definition digit_char :: "nat \<Rightarrow> char" where
  "digit_char d = ''0123456789'' ! d"

text \<open>Decimal rendering of an array length or of an integer inside a template literal.\<close>

fun show_nat :: "nat \<Rightarrow> string" where
  "show_nat n =
     (if n < 10 then [digit_char n] else show_nat (n div 10) @ [digit_char (n mod 10)])"

declare show_nat.simps [simp del]

definition show_int :: "int \<Rightarrow> string" where
  "show_int i = (if i < 0 then CHR ''-'' # show_nat (nat (- i)) else show_nat (nat i))"

text \<open>The conversion a template literal \<open>`${v}`\<close> applies to \<open>v\<close>.\<close>

fun toString :: "jsval \<Rightarrow> string" where
  "toString JUndefined = ''undefined''"
| "toString JNull = ''null''"
| "toString (JBool b) = (if b then ''true'' else ''false'')"
| "toString (JNum n) = show_int (sint n)"
| "toString (JStr s) = s"

text \<open>
  An object is a finite map from property names to values; reading a property that the
  object does not have gives \<open>undefined\<close>.
\<close>

type_synonym jsobject = "string \<rightharpoonup> jsval"

definition get_prop :: "jsobject \<Rightarrow> string \<Rightarrow> jsval" where
  "get_prop obj k = (case obj k of None \<Rightarrow> JUndefined | Some v \<Rightarrow> v)"

section \<open>The statement built by getAllProperties\<close>

text \<open>
  The three local variables of \<open>getAllProperties\<close>. Each \<open>if\<close> block of the source is
  one step function on this state, in the order of the source.
\<close>

record builder =
  queryParams :: "jsval list"
  whereAnd :: string
  queryString :: string

definition builder_init :: builder where
  "builder_init =
     \<lparr> queryParams = [],
       whereAnd = ''WHERE'',
       queryString =
         ''\<newline>  SELECT properties.*, AVG(property_reviews.rating) AS average_rating\<newline>  FROM properties\<newline>    JOIN property_reviews ON properties.id = property_id\<newline>  '' \<rparr>"

definition push :: "jsval \<Rightarrow> builder \<Rightarrow> builder" where
  "push v s = s\<lparr>queryParams := queryParams s @ [v]\<rparr>"

definition append_sql :: "string \<Rightarrow> builder \<Rightarrow> builder" where
  "append_sql t s = s\<lparr>queryString := queryString s @ t\<rparr>"

definition placeholder :: "builder \<Rightarrow> string" where
  "placeholder s = CHR ''$'' # show_nat (length (queryParams s))"

definition step_owner_id :: "jsobject \<Rightarrow> builder \<Rightarrow> builder" where
  "step_owner_id options s =
     (if truthy (get_prop options ''owner_id'') then
        (let s1 = push (JStr (toString (get_prop options ''owner_id''))) s
         in append_sql (whereAnd s1 @ '' owner_id = '' @ placeholder s1 @ '' '') s1)
      else s)"

definition step_city :: "jsobject \<Rightarrow> builder \<Rightarrow> builder" where
  "step_city options s =
     (if truthy (get_prop options ''city'') then
        (let s1 = push (JStr (''%'' @ toString (get_prop options ''city'') @ ''%'')) s;
             s2 = append_sql (whereAnd s1 @ '' city LIKE '' @ placeholder s1 @ '' '') s1
         in s2\<lparr>whereAnd := ''AND''\<rparr>)
      else s)"

definition step_minimum_price :: "jsobject \<Rightarrow> builder \<Rightarrow> builder" where
  "step_minimum_price options s =
     (if truthy (get_prop options ''minimum_price_per_night'') then
        (let s1 = push (JStr (toString (get_prop options ''minimum_price_per_night''))) s;
             s2 = append_sql
                    (''\<newline>    '' @ whereAnd s1 @ '' cost_per_night / 100 > '' @ placeholder s1
                       @ '' \<newline>    '') s1
         in s2\<lparr>whereAnd := ''AND''\<rparr>)
      else s)"

definition step_maximum_price :: "jsobject \<Rightarrow> builder \<Rightarrow> builder" where
  "step_maximum_price options s =
     (if truthy (get_prop options ''maximum_price_per_night'') then
        (let s1 = push (JStr (toString (get_prop options ''maximum_price_per_night''))) s
         in append_sql
              (''\<newline>    '' @ whereAnd s1 @ '' cost_per_night / 100 < '' @ placeholder s1
                 @ ''\<newline>    '') s1)
      else s)"

definition step_group_by :: "builder \<Rightarrow> builder" where
  "step_group_by s = append_sql ''GROUP BY properties.id '' s"

definition step_minimum_rating :: "jsobject \<Rightarrow> builder \<Rightarrow> builder" where
  "step_minimum_rating options s =
     (if truthy (get_prop options ''minimum_rating'') then
        (let s1 = push (JStr (toString (get_prop options ''minimum_rating''))) s
         in append_sql
              (''\<newline>    HAVING AVG(property_reviews.rating) >= '' @ placeholder s1 @ '' '') s1)
      else s)"

definition step_limit :: "jsval \<Rightarrow> builder \<Rightarrow> builder" where
  "step_limit limit s =
     (let s1 = push limit s
      in append_sql
           (''\<newline>  ORDER BY cost_per_night\<newline>  LIMIT '' @ placeholder s1 @ '';\<newline>  '') s1)"

text \<open>The default value of the second argument: \<open>limit = 10\<close> applies to \<open>undefined\<close> only.\<close>

definition default_limit :: "jsval \<Rightarrow> jsval" where
  "default_limit limit = (if limit = JUndefined then JNum 10 else limit)"

text \<open>The state just before \<open>pool.query(queryString, queryParams)\<close> is called.\<close>

definition getAllProperties_build :: "jsobject \<Rightarrow> jsval \<Rightarrow> builder" where
  "getAllProperties_build options limit =
     step_limit (default_limit limit)
       (step_minimum_rating options
         (step_group_by
           (step_maximum_price options
             (step_minimum_price options
               (step_city options
                 (step_owner_id options builder_init))))))"

section \<open>Reading a statement text\<close>

text \<open>
  The statement is a string, so what it says is found by scanning it. Three scanners are
  used: the words of the text (separated by blanks and line breaks, with the terminating
  semicolon a word of its own), the positional placeholders \<open>$n\<close> in the order in which
  they occur, and the word that follows a given sequence of words.
\<close>

definition is_space :: "char \<Rightarrow> bool" where
  "is_space c = (c = CHR '' '' \<or> c = CHR 0x0A \<or> c = CHR 0x09 \<or> c = CHR 0x0D)"

definition flush :: "string \<Rightarrow> string list" where
  "flush w = (if w = [] then [] else [w])"

fun split_ws :: "string \<Rightarrow> string \<Rightarrow> string list" where
  "split_ws w [] = flush w"
| "split_ws w (c # cs) =
     (if is_space c then flush w @ split_ws [] cs
      else if c = CHR '';'' then flush w @ [[c]] @ split_ws [] cs
      else split_ws (w @ [c]) cs)"

definition sql_words :: "string \<Rightarrow> string list" where
  "sql_words s = split_ws [] s"

definition is_digit :: "char \<Rightarrow> bool" where
  "is_digit c = (48 \<le> (of_char c :: nat) \<and> (of_char c :: nat) \<le> 57)"

definition digit_val :: "char \<Rightarrow> nat" where
  "digit_val c = of_char c - 48"

definition read_nat :: "string \<Rightarrow> nat" where
  "read_nat ds = foldl (\<lambda>n c. 10 * n + digit_val c) 0 ds"

text \<open>Every \<open>$\<close> followed by digits, anywhere in the text, with the number it carries.\<close>

fun placeholders :: "string \<Rightarrow> nat list" where
  "placeholders [] = []"
| "placeholders (c # cs) =
     (if c = CHR ''$'' then
        (if takeWhile is_digit cs = [] then placeholders cs
         else read_nat (takeWhile is_digit cs) # placeholders cs)
      else placeholders cs)"

text \<open>A word that is a placeholder, and its number.\<close>

definition parse_placeholder :: "string \<Rightarrow> nat option" where
  "parse_placeholder w =
     (case w of
        [] \<Rightarrow> None
      | c # ds \<Rightarrow> if c = CHR ''$'' \<and> ds \<noteq> [] \<and> list_all is_digit ds then Some (read_nat ds) else None)"

fun strip_prefix :: "'a list \<Rightarrow> 'a list \<Rightarrow> 'a list option" where
  "strip_prefix [] ys = Some ys"
| "strip_prefix (x # xs) [] = None"
| "strip_prefix (x # xs) (y # ys) = (if x = y then strip_prefix xs ys else None)"

text \<open>The word right after the first occurrence of the words \<open>m\<close>.\<close>

fun find_after :: "string list \<Rightarrow> string list \<Rightarrow> string option" where
  "find_after m [] = None"
| "find_after m (t # ts) =
     (case strip_prefix m (t # ts) of
        Some (w # _) \<Rightarrow> Some w
      | _ \<Rightarrow> find_after m ts)"

text \<open>
  The parameter that the condition introduced by the words \<open>m\<close> is bound to: the
  placeholder after \<open>m\<close> in the statement, looked up in the parameter list (\<open>$i\<close> is the
  \<open>i\<close>-th element, counting from one).
\<close>

definition bound_index :: "string list \<Rightarrow> builder \<Rightarrow> nat option" where
  "bound_index m b =
     (case find_after m (sql_words (queryString b)) of
        None \<Rightarrow> None
      | Some w \<Rightarrow> parse_placeholder w)"

definition nth_param :: "jsval list \<Rightarrow> nat \<Rightarrow> jsval option" where
  "nth_param ps i = (if 0 < i \<and> i \<le> length ps then Some (ps ! (i - 1)) else None)"

definition bound_value :: "string list \<Rightarrow> builder \<Rightarrow> jsval option" where
  "bound_value m b =
     (case bound_index m b of None \<Rightarrow> None | Some i \<Rightarrow> nth_param (queryParams b) i)"

section \<open>Facts about the scanners\<close>

subsection \<open>Digits\<close>

lemma digit_char_cases:
  assumes "d < 10"
  shows "digit_char d \<in> set ''0123456789''"
  unfolding digit_char_def by (rule nth_mem) (use assms in simp)

lemma digit_char_is_digit: "d < 10 \<Longrightarrow> is_digit (digit_char d)"
  using digit_char_cases [of d] by (auto simp: is_digit_def)

lemma digit_val_digit_char: "d < 10 \<Longrightarrow> digit_val (digit_char d) = d"
proof -
  assume "d < 10"
  then have "d \<in> {0, 1, 2, 3, 4, 5, 6, 7, 8, 9}" by auto
  then show ?thesis by (auto simp: digit_val_def digit_char_def)
qed

lemma show_nat_digits: "c \<in> set (show_nat n) \<Longrightarrow> is_digit c"
proof (induction n arbitrary: c rule: show_nat.induct)
  case (1 n)
  show ?case
  proof (cases "n < 10")
    case True
    with "1.prems" show ?thesis
      by (simp add: show_nat.simps [of n] digit_char_is_digit)
  next
    case False
    with "1.prems" "1.IH" show ?thesis
      by (auto simp add: show_nat.simps [of n] digit_char_is_digit)
  qed
qed

lemma show_nat_nonempty [simp]: "show_nat n \<noteq> []"
  by (simp add: show_nat.simps [of n])

lemma read_nat_snoc: "read_nat (ds @ [c]) = 10 * read_nat ds + digit_val c"
  by (simp add: read_nat_def)

lemma read_nat_show_nat [simp]: "read_nat (show_nat n) = n"
proof (induction n rule: show_nat.induct)
  case (1 n)
  show ?case
  proof (cases "n < 10")
    case True
    then show ?thesis
      by (simp add: show_nat.simps [of n] read_nat_def digit_val_digit_char)
  next
    case False
    with "1.IH" show ?thesis
      by (simp add: show_nat.simps [of n] read_nat_snoc digit_val_digit_char)
  qed
qed

lemma list_all_digits_show_nat [simp]: "list_all is_digit (show_nat n)"
  by (simp add: list_all_iff show_nat_digits)

lemma takeWhile_show_nat [simp]:
  "\<not> is_digit c \<Longrightarrow> takeWhile is_digit (show_nat n @ c # cs) = show_nat n"
  by (simp add: takeWhile_append2 show_nat_digits)

lemma parse_placeholder_show_nat [simp]: "parse_placeholder (CHR ''$'' # show_nat n) = Some n"
  by (simp add: parse_placeholder_def)

lemma is_digit_eval [simp]:
  "\<not> is_digit CHR '' ''" "\<not> is_digit CHR '';''" "\<not> is_digit CHR 0x0A" "\<not> is_digit CHR ''$''"
  "\<not> is_digit CHR ''W''" "\<not> is_digit CHR ''A''" "\<not> is_digit CHR ''G''"
  by (simp_all add: is_digit_def)

lemma digit_not_space: "is_digit c \<Longrightarrow> \<not> is_space c"
  by (auto simp: is_digit_def is_space_def)

lemma digit_not_semicolon: "is_digit c \<Longrightarrow> c \<noteq> CHR '';''"
  by (auto simp: is_digit_def)

lemma digit_not_dollar: "is_digit c \<Longrightarrow> c \<noteq> CHR ''$''"
  by (auto simp: is_digit_def)

subsection \<open>Words of a concatenation\<close>

lemma split_ws_plain:
  "\<forall>c \<in> set u. \<not> is_space c \<and> c \<noteq> CHR '';'' \<Longrightarrow> split_ws w (u @ r) = split_ws (w @ u) r"
  by (induction u arbitrary: w) auto

lemma split_ws_show_nat [simp]: "split_ws w (show_nat n @ r) = split_ws (w @ show_nat n) r"
  by (rule split_ws_plain) (auto dest!: show_nat_digits dest: digit_not_space digit_not_semicolon)

lemma split_ws_after_space:
  "a \<noteq> [] \<Longrightarrow> is_space (last a) \<Longrightarrow> split_ws w (a @ b) = split_ws w a @ split_ws [] b"
proof (induction a arbitrary: w)
  case Nil
  then show ?case by simp
next
  case (Cons c a)
  show ?case
  proof (cases "a = []")
    case True
    with Cons.prems show ?thesis by (simp add: flush_def)
  next
    case False
    with Cons show ?thesis by simp
  qed
qed

lemma sql_words_append:
  "a \<noteq> [] \<Longrightarrow> is_space (last a) \<Longrightarrow> sql_words (a @ b) = sql_words a @ sql_words b"
  by (simp add: sql_words_def split_ws_after_space)

subsection \<open>Placeholders of a concatenation\<close>

lemma placeholders_append:
  "b = [] \<or> \<not> is_digit (hd b) \<Longrightarrow> placeholders (a @ b) = placeholders a @ placeholders b"
proof (induction a)
  case Nil
  then show ?case by simp
next
  case (Cons c a)
  have tw: "takeWhile is_digit (a @ b) = takeWhile is_digit a"
  proof (cases b)
    case Nil
    then show ?thesis by simp
  next
    case (Cons d ds)
    with Cons.prems have "\<not> is_digit d" by simp
    then show ?thesis
      unfolding Cons by (induction a) auto
  qed
  from Cons show ?case by (simp add: tw)
qed

lemma placeholders_digits: "\<forall>c \<in> set ds. is_digit c \<Longrightarrow> placeholders (ds @ r) = placeholders r"
  by (induction ds) (auto dest: digit_not_dollar)

lemma placeholders_show_nat [simp]: "placeholders (show_nat n @ r) = placeholders r"
  by (rule placeholders_digits) (auto dest: show_nat_digits)

section \<open>The builder, step by step\<close>

text \<open>
  What holds of the builder state between any two steps: the text so far ends in a blank,
  and the connective is one of the two keywords.
\<close>

definition wf_builder :: "builder \<Rightarrow> bool" where
  "wf_builder s \<longleftrightarrow>
     queryString s \<noteq> [] \<and> is_space (last (queryString s)) \<and>
     (whereAnd s = ''WHERE'' \<or> whereAnd s = ''AND'')"

definition cnt :: "bool \<Rightarrow> nat" where
  "cnt b = (if b then 1 else 0)"

lemma is_space_eval [simp]:
  "is_space CHR '' ''" "is_space CHR 0x0A"
  by (simp_all add: is_space_def)

lemma push_simps [simp]:
  "queryParams (push v s) = queryParams s @ [v]"
  "queryString (push v s) = queryString s"
  "whereAnd (push v s) = whereAnd s"
  by (simp_all add: push_def)

lemma append_sql_simps [simp]:
  "queryParams (append_sql t s) = queryParams s"
  "queryString (append_sql t s) = queryString s @ t"
  "whereAnd (append_sql t s) = whereAnd s"
  by (simp_all add: append_sql_def)

lemma wf_init: "wf_builder builder_init"
  by (simp add: wf_builder_def builder_init_def)

lemma wf_whereAnd: "wf_builder s \<Longrightarrow> whereAnd s = ''WHERE'' \<or> whereAnd s = ''AND''"
  by (simp add: wf_builder_def)

lemma wf_push [simp]: "wf_builder (push v s) = wf_builder s"
  by (simp add: wf_builder_def)

lemma wf_append_sql:
  "wf_builder s \<Longrightarrow> t \<noteq> [] \<Longrightarrow> is_space (last t) \<Longrightarrow> wf_builder (append_sql t s)"
  by (simp add: wf_builder_def)

lemma wf_set_and: "wf_builder s \<Longrightarrow> wf_builder (s\<lparr>whereAnd := ''AND''\<rparr>)"
  by (simp add: wf_builder_def)

lemma words_after_wf:
  "wf_builder s \<Longrightarrow> sql_words (queryString s @ t) = sql_words (queryString s) @ sql_words t"
  by (simp add: wf_builder_def sql_words_append)

lemma placeholders_after:
  "\<not> is_digit c \<Longrightarrow> placeholders (q @ c # t) = placeholders q @ placeholders (c # t)"
  by (rule placeholders_append) simp

lemmas step_defs = step_owner_id_def step_city_def step_minimum_price_def
  step_maximum_price_def step_group_by_def step_minimum_rating_def step_limit_def
  placeholder_def Let_def

subsection \<open>Well-formedness is kept\<close>

lemma wf_steps:
  "wf_builder s \<Longrightarrow> wf_builder (step_owner_id options s)"
  "wf_builder s \<Longrightarrow> wf_builder (step_city options s)"
  "wf_builder s \<Longrightarrow> wf_builder (step_minimum_price options s)"
  "wf_builder s \<Longrightarrow> wf_builder (step_maximum_price options s)"
  "wf_builder s \<Longrightarrow> wf_builder (step_group_by s)"
  "wf_builder s \<Longrightarrow> wf_builder (step_minimum_rating options s)"
  by (auto simp: step_defs intro!: wf_append_sql wf_set_and)

subsection \<open>The connective after each step\<close>

lemma whereAnd_steps:
  "whereAnd (step_owner_id options s) = whereAnd s"
  "whereAnd (step_city options s) = (if truthy (get_prop options ''city'') then ''AND'' else whereAnd s)"
  "whereAnd (step_minimum_price options s) =
     (if truthy (get_prop options ''minimum_price_per_night'') then ''AND'' else whereAnd s)"
  "whereAnd (step_maximum_price options s) = whereAnd s"
  "whereAnd (step_group_by s) = whereAnd s"
  "whereAnd (step_minimum_rating options s) = whereAnd s"
  by (simp_all add: step_defs)

subsection \<open>The parameters after each step\<close>

lemma params_steps:
  "queryParams (step_owner_id options s) = queryParams s @
     (if truthy (get_prop options ''owner_id'')
      then [JStr (toString (get_prop options ''owner_id''))] else [])"
  "queryParams (step_city options s) = queryParams s @
     (if truthy (get_prop options ''city'')
      then [JStr (''%'' @ toString (get_prop options ''city'') @ ''%'')] else [])"
  "queryParams (step_minimum_price options s) = queryParams s @
     (if truthy (get_prop options ''minimum_price_per_night'')
      then [JStr (toString (get_prop options ''minimum_price_per_night''))] else [])"
  "queryParams (step_maximum_price options s) = queryParams s @
     (if truthy (get_prop options ''maximum_price_per_night'')
      then [JStr (toString (get_prop options ''maximum_price_per_night''))] else [])"
  "queryParams (step_group_by s) = queryParams s"
  "queryParams (step_minimum_rating options s) = queryParams s @
     (if truthy (get_prop options ''minimum_rating'')
      then [JStr (toString (get_prop options ''minimum_rating''))] else [])"
  "queryParams (step_limit limit s) = queryParams s @ [limit]"
  by (simp_all add: step_defs)

subsection \<open>The words each step appends\<close>

lemma words_owner_id:
  assumes "wf_builder s"
  shows "sql_words (queryString (step_owner_id options s)) =
     sql_words (queryString s) @
       (if truthy (get_prop options ''owner_id'')
        then [whereAnd s, ''owner_id'', ''='', CHR ''$'' # show_nat (Suc (length (queryParams s)))]
        else [])"
  using wf_whereAnd [OF assms] assms
  by (auto simp: step_defs words_after_wf) (simp_all add: sql_words_def flush_def is_space_def)

lemma words_city:
  assumes "wf_builder s"
  shows "sql_words (queryString (step_city options s)) =
     sql_words (queryString s) @
       (if truthy (get_prop options ''city'')
        then [whereAnd s, ''city'', ''LIKE'', CHR ''$'' # show_nat (Suc (length (queryParams s)))]
        else [])"
  using wf_whereAnd [OF assms] assms
  by (auto simp: step_defs words_after_wf) (simp_all add: sql_words_def flush_def is_space_def)

lemma words_minimum_price:
  assumes "wf_builder s"
  shows "sql_words (queryString (step_minimum_price options s)) =
     sql_words (queryString s) @
       (if truthy (get_prop options ''minimum_price_per_night'')
        then [whereAnd s, ''cost_per_night'', ''/'', ''100'', ''>'',
              CHR ''$'' # show_nat (Suc (length (queryParams s)))]
        else [])"
  using wf_whereAnd [OF assms] assms
  by (auto simp: step_defs words_after_wf) (simp_all add: sql_words_def flush_def is_space_def)

lemma words_maximum_price:
  assumes "wf_builder s"
  shows "sql_words (queryString (step_maximum_price options s)) =
     sql_words (queryString s) @
       (if truthy (get_prop options ''maximum_price_per_night'')
        then [whereAnd s, ''cost_per_night'', ''/'', ''100'', ''<'',
              CHR ''$'' # show_nat (Suc (length (queryParams s)))]
        else [])"
  using wf_whereAnd [OF assms] assms
  by (auto simp: step_defs words_after_wf) (simp_all add: sql_words_def flush_def is_space_def)

lemma words_group_by:
  assumes "wf_builder s"
  shows "sql_words (queryString (step_group_by s)) =
     sql_words (queryString s) @ [''GROUP'', ''BY'', ''properties.id'']"
  using assms
  by (simp add: step_defs words_after_wf) (simp add: sql_words_def flush_def is_space_def)

lemma words_minimum_rating:
  assumes "wf_builder s"
  shows "sql_words (queryString (step_minimum_rating options s)) =
     sql_words (queryString s) @
       (if truthy (get_prop options ''minimum_rating'')
        then [''HAVING'', ''AVG(property_reviews.rating)'', ''>='',
              CHR ''$'' # show_nat (Suc (length (queryParams s)))]
        else [])"
  using assms
  by (auto simp: step_defs words_after_wf) (simp_all add: sql_words_def flush_def is_space_def)

lemma words_limit:
  assumes "wf_builder s"
  shows "sql_words (queryString (step_limit limit s)) =
     sql_words (queryString s) @
       [''ORDER'', ''BY'', ''cost_per_night'', ''LIMIT'',
        CHR ''$'' # show_nat (Suc (length (queryParams s))), '';'']"
  using assms
  by (simp add: step_defs words_after_wf) (simp add: sql_words_def flush_def is_space_def)

lemma words_init:
  "sql_words (queryString builder_init) =
     [''SELECT'', ''properties.*,'', ''AVG(property_reviews.rating)'', ''AS'', ''average_rating'',
      ''FROM'', ''properties'', ''JOIN'', ''property_reviews'', ''ON'', ''properties.id'', ''='',
      ''property_id'']"
  by (simp add: builder_init_def sql_words_def flush_def is_space_def)

subsection \<open>The placeholders each step appends\<close>

lemma placeholders_owner_id:
  assumes "wf_builder s"
  shows "placeholders (queryString (step_owner_id options s)) =
     placeholders (queryString s) @
       (if truthy (get_prop options ''owner_id'') then [Suc (length (queryParams s))] else [])"
  using wf_whereAnd [OF assms]
  by (auto simp: step_defs placeholders_after)

lemma placeholders_city:
  assumes "wf_builder s"
  shows "placeholders (queryString (step_city options s)) =
     placeholders (queryString s) @
       (if truthy (get_prop options ''city'') then [Suc (length (queryParams s))] else [])"
  using wf_whereAnd [OF assms]
  by (auto simp: step_defs placeholders_after)

lemma placeholders_minimum_price:
  assumes "wf_builder s"
  shows "placeholders (queryString (step_minimum_price options s)) =
     placeholders (queryString s) @
       (if truthy (get_prop options ''minimum_price_per_night'')
        then [Suc (length (queryParams s))] else [])"
  using wf_whereAnd [OF assms]
  by (auto simp: step_defs placeholders_after)

lemma placeholders_maximum_price:
  assumes "wf_builder s"
  shows "placeholders (queryString (step_maximum_price options s)) =
     placeholders (queryString s) @
       (if truthy (get_prop options ''maximum_price_per_night'')
        then [Suc (length (queryParams s))] else [])"
  using wf_whereAnd [OF assms]
  by (auto simp: step_defs placeholders_after)

lemma placeholders_group_by:
  "placeholders (queryString (step_group_by s)) = placeholders (queryString s)"
  by (simp add: step_defs placeholders_after)

lemma placeholders_minimum_rating:
  "placeholders (queryString (step_minimum_rating options s)) =
     placeholders (queryString s) @
       (if truthy (get_prop options ''minimum_rating'') then [Suc (length (queryParams s))] else [])"
  by (simp add: step_defs placeholders_after)

lemma placeholders_limit:
  "placeholders (queryString (step_limit limit s)) =
     placeholders (queryString s) @ [Suc (length (queryParams s))]"
  by (simp add: step_defs placeholders_after)

lemma placeholders_init: "placeholders (queryString builder_init) = []"
  by (simp add: builder_init_def)

section \<open>The statement as a whole\<close>

text \<open>
  The parameter list the specification describes: one entry for each filter whose value
  is truthy, in the order owner_id, city, minimum_price_per_night,
  maximum_price_per_night, minimum_rating, and the limit last.
\<close>

definition spec_params :: "jsobject \<Rightarrow> jsval \<Rightarrow> jsval list" where
  "spec_params options limit =
     (if truthy (get_prop options ''owner_id'')
      then [JStr (toString (get_prop options ''owner_id''))] else []) @
     (if truthy (get_prop options ''city'')
      then [JStr (''%'' @ toString (get_prop options ''city'') @ ''%'')] else []) @
     (if truthy (get_prop options ''minimum_price_per_night'')
      then [JStr (toString (get_prop options ''minimum_price_per_night''))] else []) @
     (if truthy (get_prop options ''maximum_price_per_night'')
      then [JStr (toString (get_prop options ''maximum_price_per_night''))] else []) @
     (if truthy (get_prop options ''minimum_rating'')
      then [JStr (toString (get_prop options ''minimum_rating''))] else []) @
     [default_limit limit]"

definition select_words :: "string list" where
  "select_words =
     [''SELECT'', ''properties.*,'', ''AVG(property_reviews.rating)'', ''AS'', ''average_rating'',
      ''FROM'', ''properties'', ''JOIN'', ''property_reviews'', ''ON'', ''properties.id'', ''='',
      ''property_id'']"

text \<open>
  The words of the statement, written out. \<open>o\<close>, \<open>c\<close>, \<open>mn\<close>, \<open>mx\<close> and \<open>r\<close> say which
  of the five filters are truthy.
\<close>

definition statement_words :: "bool \<Rightarrow> bool \<Rightarrow> bool \<Rightarrow> bool \<Rightarrow> bool \<Rightarrow> string list" where
  "statement_words o' c mn mx r =
     select_words @
     (if o' then [''WHERE'', ''owner_id'', ''='', CHR ''$'' # show_nat 1] else []) @
     (if c then [''WHERE'', ''city'', ''LIKE'', CHR ''$'' # show_nat (Suc (cnt o'))] else []) @
     (if mn then [if c then ''AND'' else ''WHERE'', ''cost_per_night'', ''/'', ''100'', ''>'',
                  CHR ''$'' # show_nat (Suc (cnt o' + cnt c))] else []) @
     (if mx then [if c \<or> mn then ''AND'' else ''WHERE'', ''cost_per_night'', ''/'', ''100'', ''<'',
                  CHR ''$'' # show_nat (Suc (cnt o' + cnt c + cnt mn))] else []) @
     [''GROUP'', ''BY'', ''properties.id''] @
     (if r then [''HAVING'', ''AVG(property_reviews.rating)'', ''>='',
                 CHR ''$'' # show_nat (Suc (cnt o' + cnt c + cnt mn + cnt mx))] else []) @
     [''ORDER'', ''BY'', ''cost_per_night'', ''LIMIT'',
      CHR ''$'' # show_nat (Suc (cnt o' + cnt c + cnt mn + cnt mx + cnt r)), '';'']"

lemma params_build:
  "queryParams (getAllProperties_build options limit) = spec_params options limit"
  by (simp add: getAllProperties_build_def params_steps spec_params_def builder_init_def)

lemma words_build:
  "sql_words (queryString (getAllProperties_build options limit)) =
     statement_words (truthy (get_prop options ''owner_id'')) (truthy (get_prop options ''city''))
       (truthy (get_prop options ''minimum_price_per_night''))
       (truthy (get_prop options ''maximum_price_per_night''))
       (truthy (get_prop options ''minimum_rating''))"
  by (simp add: getAllProperties_build_def statement_words_def select_words_def
      wf_init wf_steps words_owner_id words_city words_minimum_price words_maximum_price
      words_group_by words_minimum_rating words_limit words_init whereAnd_steps params_steps cnt_def)
     (simp add: builder_init_def)

definition numbered :: "builder \<Rightarrow> bool" where
  "numbered s \<longleftrightarrow> placeholders (queryString s) = [1..<Suc (length (queryParams s))]"

lemma numbered_init: "numbered builder_init"
  by (simp add: numbered_def placeholders_init) (simp add: builder_init_def)

lemma numbered_steps:
  "wf_builder s \<Longrightarrow> numbered s \<Longrightarrow> numbered (step_owner_id options s)"
  "wf_builder s \<Longrightarrow> numbered s \<Longrightarrow> numbered (step_city options s)"
  "wf_builder s \<Longrightarrow> numbered s \<Longrightarrow> numbered (step_minimum_price options s)"
  "wf_builder s \<Longrightarrow> numbered s \<Longrightarrow> numbered (step_maximum_price options s)"
  "numbered s \<Longrightarrow> numbered (step_group_by s)"
  "numbered s \<Longrightarrow> numbered (step_minimum_rating options s)"
  "numbered s \<Longrightarrow> numbered (step_limit limit s)"
  by (simp_all add: numbered_def placeholders_owner_id placeholders_city
      placeholders_minimum_price placeholders_maximum_price placeholders_group_by
      placeholders_minimum_rating placeholders_limit params_steps)

lemma numbered_build: "numbered (getAllProperties_build options limit)"
  unfolding getAllProperties_build_def
  by (intro numbered_steps wf_steps wf_init numbered_init)

text \<open>
  The word that follows the words of each condition in the statement: the placeholder of
  the filter when the filter is present, and nothing otherwise.
\<close>

lemma after_owner_id:
  "find_after [''owner_id'', ''=''] (statement_words o' c mn mx r) =
     (if o' then Some (CHR ''$'' # show_nat 1) else None)"
  by (cases o'; cases c; cases mn; cases mx; cases r)
     (simp_all add: statement_words_def select_words_def)

lemma after_city:
  "find_after [''city'', ''LIKE''] (statement_words o' c mn mx r) =
     (if c then Some (CHR ''$'' # show_nat (Suc (cnt o'))) else None)"
  by (cases o'; cases c; cases mn; cases mx; cases r)
     (simp_all add: statement_words_def select_words_def)

lemma after_minimum_price:
  "find_after [''cost_per_night'', ''/'', ''100'', ''>''] (statement_words o' c mn mx r) =
     (if mn then Some (CHR ''$'' # show_nat (Suc (cnt o' + cnt c))) else None)"
  by (cases o'; cases c; cases mn; cases mx; cases r)
     (simp_all add: statement_words_def select_words_def)

lemma after_maximum_price:
  "find_after [''cost_per_night'', ''/'', ''100'', ''<''] (statement_words o' c mn mx r) =
     (if mx then Some (CHR ''$'' # show_nat (Suc (cnt o' + cnt c + cnt mn))) else None)"
  by (cases o'; cases c; cases mn; cases mx; cases r)
     (simp_all add: statement_words_def select_words_def)

lemma after_minimum_rating:
  "find_after [''HAVING'', ''AVG(property_reviews.rating)'', ''>=''] (statement_words o' c mn mx r) =
     (if r then Some (CHR ''$'' # show_nat (Suc (cnt o' + cnt c + cnt mn + cnt mx))) else None)"
  by (cases o'; cases c; cases mn; cases mx; cases r)
     (simp_all add: statement_words_def select_words_def)

lemma after_limit:
  "find_after [''LIMIT''] (statement_words o' c mn mx r) =
     Some (CHR ''$'' # show_nat (Suc (cnt o' + cnt c + cnt mn + cnt mx + cnt r)))"
  by (cases o'; cases c; cases mn; cases mx; cases r)
     (simp_all add: statement_words_def select_words_def)

text \<open>The entry of the parameter list at the number of each placeholder.\<close>

lemma nth_spec_params:
  "truthy (get_prop options ''owner_id'') \<Longrightarrow>
     nth_param (spec_params options limit) (Suc 0) = Some (JStr (toString (get_prop options ''owner_id'')))"
  "truthy (get_prop options ''city'') \<Longrightarrow>
     nth_param (spec_params options limit) (Suc (cnt (truthy (get_prop options ''owner_id''))))
       = Some (JStr (''%'' @ toString (get_prop options ''city'') @ ''%''))"
  "truthy (get_prop options ''minimum_price_per_night'') \<Longrightarrow>
     nth_param (spec_params options limit)
       (Suc (cnt (truthy (get_prop options ''owner_id'')) + cnt (truthy (get_prop options ''city''))))
       = Some (JStr (toString (get_prop options ''minimum_price_per_night'')))"
  "truthy (get_prop options ''maximum_price_per_night'') \<Longrightarrow>
     nth_param (spec_params options limit)
       (Suc (cnt (truthy (get_prop options ''owner_id'')) + cnt (truthy (get_prop options ''city''))
             + cnt (truthy (get_prop options ''minimum_price_per_night''))))
       = Some (JStr (toString (get_prop options ''maximum_price_per_night'')))"
  "truthy (get_prop options ''minimum_rating'') \<Longrightarrow>
     nth_param (spec_params options limit)
       (Suc (cnt (truthy (get_prop options ''owner_id'')) + cnt (truthy (get_prop options ''city''))
             + cnt (truthy (get_prop options ''minimum_price_per_night''))
             + cnt (truthy (get_prop options ''maximum_price_per_night''))))
       = Some (JStr (toString (get_prop options ''minimum_rating'')))"
  "nth_param (spec_params options limit)
       (Suc (cnt (truthy (get_prop options ''owner_id'')) + cnt (truthy (get_prop options ''city''))
             + cnt (truthy (get_prop options ''minimum_price_per_night''))
             + cnt (truthy (get_prop options ''maximum_price_per_night''))
             + cnt (truthy (get_prop options ''minimum_rating''))))
       = Some (default_limit limit)"
  by (simp_all add: spec_params_def nth_param_def cnt_def nth_append)

lemma bound_owner_id:
  "bound_value [''owner_id'', ''=''] (getAllProperties_build options limit) =
     (if truthy (get_prop options ''owner_id'')
      then Some (JStr (toString (get_prop options ''owner_id''))) else None)"
  by (simp add: bound_value_def bound_index_def words_build params_build after_owner_id
      nth_spec_params)

lemma bound_city:
  "bound_value [''city'', ''LIKE''] (getAllProperties_build options limit) =
     (if truthy (get_prop options ''city'')
      then Some (JStr (''%'' @ toString (get_prop options ''city'') @ ''%'')) else None)"
  by (simp add: bound_value_def bound_index_def words_build params_build after_city
      nth_spec_params)

lemma bound_minimum_price:
  "bound_value [''cost_per_night'', ''/'', ''100'', ''>''] (getAllProperties_build options limit) =
     (if truthy (get_prop options ''minimum_price_per_night'')
      then Some (JStr (toString (get_prop options ''minimum_price_per_night''))) else None)"
  by (simp add: bound_value_def bound_index_def words_build params_build after_minimum_price
      nth_spec_params)

lemma bound_maximum_price:
  "bound_value [''cost_per_night'', ''/'', ''100'', ''<''] (getAllProperties_build options limit) =
     (if truthy (get_prop options ''maximum_price_per_night'')
      then Some (JStr (toString (get_prop options ''maximum_price_per_night''))) else None)"
  by (simp add: bound_value_def bound_index_def words_build params_build after_maximum_price
      nth_spec_params)

lemma bound_minimum_rating:
  "bound_value [''HAVING'', ''AVG(property_reviews.rating)'', ''>=''] (getAllProperties_build options limit) =
     (if truthy (get_prop options ''minimum_rating'')
      then Some (JStr (toString (get_prop options ''minimum_rating''))) else None)"
  by (simp add: bound_value_def bound_index_def words_build params_build after_minimum_rating
      nth_spec_params)

lemma bound_limit:
  "bound_value [''LIMIT''] (getAllProperties_build options limit) = Some (default_limit limit)"
  by (simp add: bound_value_def bound_index_def words_build params_build after_limit
      nth_spec_params)

definition keyword_count :: "string \<Rightarrow> string \<Rightarrow> nat" where
  "keyword_count kw s = length (filter (\<lambda>w. w = kw) (sql_words s))"

definition filter_keys :: "string list" where
  "filter_keys = [''owner_id'', ''city'', ''minimum_price_per_night'', ''maximum_price_per_night'',
     ''minimum_rating'']"

definition no_filters :: "jsobject \<Rightarrow> bool" where
  "no_filters options = list_all (\<lambda>k. \<not> truthy (get_prop options k)) filter_keys"

lemma where_count_build:
  "keyword_count ''WHERE'' (queryString (getAllProperties_build options limit)) =
     cnt (truthy (get_prop options ''owner_id'')) + cnt (truthy (get_prop options ''city'')) +
     cnt (truthy (get_prop options ''minimum_price_per_night'') \<and> \<not> truthy (get_prop options ''city'')) +
     cnt (truthy (get_prop options ''maximum_price_per_night'') \<and> \<not> truthy (get_prop options ''city'')
          \<and> \<not> truthy (get_prop options ''minimum_price_per_night''))"
  by (simp add: keyword_count_def words_build statement_words_def select_words_def cnt_def)

lemma build_no_filters:
  assumes "no_filters options"
  shows "getAllProperties_build options limit =
     \<lparr> queryParams = [default_limit limit], whereAnd = ''WHERE'',
       queryString = ''\<newline>  SELECT properties.*, AVG(property_reviews.rating) AS average_rating\<newline>  FROM properties\<newline>    JOIN property_reviews ON properties.id = property_id\<newline>  GROUP BY properties.id \<newline>  ORDER BY cost_per_night\<newline>  LIMIT $1;\<newline>  '' \<rparr>"
  using assms
  by (simp add: no_filters_def filter_keys_def getAllProperties_build_def step_defs builder_init_def
      push_def append_sql_def show_nat.simps digit_char_def)

text \<open>
  C3, as the code has it. With no truthy filter the statement is exactly the text below:
  the join is followed directly by \<open>GROUP BY\<close>, the only parameter is the limit, and the
  keyword WHERE does not occur. (The keyword is appended inside the blocks of the
  individual filters only.)
\<close>

theorem no_filters_no_where:
  assumes "no_filters options"
  shows "queryString (getAllProperties_build options limit) =
           ''\<newline>  SELECT properties.*, AVG(property_reviews.rating) AS average_rating\<newline>  FROM properties\<newline>    JOIN property_reviews ON properties.id = property_id\<newline>  GROUP BY properties.id \<newline>  ORDER BY cost_per_night\<newline>  LIMIT $1;\<newline>  ''
         \<and> queryParams (getAllProperties_build options limit) = [default_limit limit]
         \<and> keyword_count ''WHERE'' (queryString (getAllProperties_build options limit)) = 0"
proof -
  have "keyword_count ''WHERE'' (queryString (getAllProperties_build options limit)) = 0"
    using assms by (simp add: where_count_build no_filters_def filter_keys_def cnt_def)
  then show ?thesis
    by (simp add: build_no_filters [OF assms])
qed

theorem no_filters_no_where_witness:
  "no_filters [''owner_id'' \<mapsto> JNum 0, ''city'' \<mapsto> JStr ''''] \<and>
   keyword_count ''WHERE''
     (queryString (getAllProperties_build [''owner_id'' \<mapsto> JNum 0, ''city'' \<mapsto> JStr ''''] (JNum 5))) = 0 \<and>
   queryParams (getAllProperties_build [''owner_id'' \<mapsto> JNum 0, ''city'' \<mapsto> JStr ''''] (JNum 5)) = [JNum 5]"
proof -
  have h: "no_filters [''owner_id'' \<mapsto> JNum 0, ''city'' \<mapsto> JStr '''']"
    by (simp add: no_filters_def filter_keys_def get_prop_def)
  show ?thesis
    using h no_filters_no_where [OF h, of "JNum 5", THEN conjunct2] by (simp add: default_limit_def)
qed

text \<open>
  C3 as stated fails: called with an empty options object, the statement has no word
  WHERE at all, so there is no dangling one.
\<close>

theorem dangling_where_counterexample:
  "''WHERE'' \<notin> set (sql_words (queryString (getAllProperties_build Map.empty JUndefined)))"
  by (simp add: words_build statement_words_def select_words_def get_prop_def cnt_def)

lemma truthy_upd:
  "\<not> truthy v \<Longrightarrow> truthy (get_prop (options(k \<mapsto> v)) key) = truthy (get_prop (options(k := None)) key)"
  by (simp add: get_prop_def)

lemma get_prop_upd:
  "\<not> truthy v \<Longrightarrow> truthy (get_prop (options(k := None)) key) \<Longrightarrow>
     get_prop (options(k \<mapsto> v)) key = get_prop (options(k := None)) key"
  by (auto simp: get_prop_def split: if_splits)

lemma steps_falsy:
  assumes "\<not> truthy v"
  shows "step_owner_id (options(k \<mapsto> v)) s = step_owner_id (options(k := None)) s"
    and "step_city (options(k \<mapsto> v)) s = step_city (options(k := None)) s"
    and "step_minimum_price (options(k \<mapsto> v)) s = step_minimum_price (options(k := None)) s"
    and "step_maximum_price (options(k \<mapsto> v)) s = step_maximum_price (options(k := None)) s"
    and "step_minimum_rating (options(k \<mapsto> v)) s = step_minimum_rating (options(k := None)) s"
  using assms
  by (simp_all add: step_owner_id_def step_city_def step_minimum_price_def step_maximum_price_def
      step_minimum_rating_def truthy_upd get_prop_upd)

lemma length_spec_params:
  "length (spec_params options limit) =
     Suc (length (filter (\<lambda>k. truthy (get_prop options k)) filter_keys))"
  by (simp add: spec_params_def filter_keys_def)

text \<open>
  The words that introduce the condition of each filter in the statement, the parameter
  the filter binds for a value, and whether the statement has the condition of a filter.
\<close>

definition filter_words :: "string \<Rightarrow> string list" where
  "filter_words k =
     (if k = ''owner_id'' then [''owner_id'', ''='']
      else if k = ''city'' then [''city'', ''LIKE'']
      else if k = ''minimum_price_per_night'' then [''cost_per_night'', ''/'', ''100'', ''>'']
      else if k = ''maximum_price_per_night'' then [''cost_per_night'', ''/'', ''100'', ''<'']
      else [''HAVING'', ''AVG(property_reviews.rating)'', ''>=''])"

definition filter_param :: "string \<Rightarrow> jsval \<Rightarrow> jsval" where
  "filter_param k v = JStr (if k = ''city'' then ''%'' @ toString v @ ''%'' else toString v)"

definition has_condition :: "string \<Rightarrow> builder \<Rightarrow> bool" where
  "has_condition k b \<longleftrightarrow> find_after (filter_words k) (sql_words (queryString b)) \<noteq> None"

lemma has_condition_build:
  "k \<in> set filter_keys \<Longrightarrow>
     has_condition k (getAllProperties_build options limit) = truthy (get_prop options k)"
  by (auto simp: filter_keys_def has_condition_def filter_words_def words_build after_owner_id
      after_city after_minimum_price after_maximum_price after_minimum_rating)

lemma bound_value_build:
  "k \<in> set filter_keys \<Longrightarrow>
     bound_value (filter_words k) (getAllProperties_build options limit) =
       (if truthy (get_prop options k) then Some (filter_param k (get_prop options k)) else None)"
  by (auto simp: filter_keys_def filter_words_def filter_param_def bound_owner_id bound_city
      bound_minimum_price bound_maximum_price bound_minimum_rating)

lemma get_prop_same [simp]: "get_prop (options(k \<mapsto> v)) k = v"
  by (simp add: get_prop_def)

lemma get_prop_removed [simp]: "get_prop (options(k := None)) k = JUndefined"
  by (simp add: get_prop_def)

text \<open>
  C10. The builder tests each filter with \<open>if (options.key)\<close>, so a filter is present
  exactly when its value is truthy. An entry whose value is falsy is treated exactly as a
  key that is not there: the whole builder state, text and parameters, is the same. The
  falsy values of the model are \<open>undefined\<close>, \<open>null\<close>, \<open>false\<close>, \<open>0\<close> and the empty
  string. For each of the five filter keys, the statement built from an object that holds
  the value \<open>v\<close> under the key has the condition of that filter exactly when \<open>v\<close> is
  truthy; the condition is then bound to the parameter made from \<open>v\<close>, and the parameter
  list is one longer than that of the object without the key. The object without the key
  gives a statement without the condition.
\<close>

theorem falsy_filter_is_absent:
  "(\<not> truthy v \<longrightarrow>
      getAllProperties_build (options(k \<mapsto> v)) limit =
      getAllProperties_build (options(k := None)) limit)
   \<and> (\<not> truthy v \<longleftrightarrow> v \<in> {JUndefined, JNull, JBool False, JNum 0, JStr []})
   \<and> (k \<in> set filter_keys \<longrightarrow>
        has_condition k (getAllProperties_build (options(k \<mapsto> v)) limit) = truthy v
        \<and> bound_value (filter_words k) (getAllProperties_build (options(k \<mapsto> v)) limit) =
            (if truthy v then Some (filter_param k v) else None)
        \<and> length (queryParams (getAllProperties_build (options(k \<mapsto> v)) limit)) =
            (if truthy v then 1 else 0)
            + length (queryParams (getAllProperties_build (options(k := None)) limit))
        \<and> \<not> has_condition k (getAllProperties_build (options(k := None)) limit)
        \<and> bound_value (filter_words k) (getAllProperties_build (options(k := None)) limit) = None)"
proof (intro conjI impI)
  assume "\<not> truthy v"
  then show "getAllProperties_build (options(k \<mapsto> v)) limit =
      getAllProperties_build (options(k := None)) limit"
    by (simp add: getAllProperties_build_def steps_falsy)
next
  show "\<not> truthy v \<longleftrightarrow> v \<in> {JUndefined, JNull, JBool False, JNum 0, JStr []}"
    by (cases v) auto
next
  assume "k \<in> set filter_keys"
  then show "has_condition k (getAllProperties_build (options(k \<mapsto> v)) limit) = truthy v"
    by (simp add: has_condition_build)
next
  assume "k \<in> set filter_keys"
  then show "bound_value (filter_words k) (getAllProperties_build (options(k \<mapsto> v)) limit) =
            (if truthy v then Some (filter_param k v) else None)"
    by (simp add: bound_value_build)
next
  assume "k \<in> set filter_keys"
  then show "length (queryParams (getAllProperties_build (options(k \<mapsto> v)) limit)) =
            (if truthy v then 1 else 0)
            + length (queryParams (getAllProperties_build (options(k := None)) limit))"
    by (auto simp: params_build length_spec_params filter_keys_def get_prop_def)
next
  assume "k \<in> set filter_keys"
  then show "\<not> has_condition k (getAllProperties_build (options(k := None)) limit)"
    by (simp add: has_condition_build)
next
  assume "k \<in> set filter_keys"
  then show "bound_value (filter_words k) (getAllProperties_build (options(k := None)) limit) = None"
    by (simp add: bound_value_build)
qed

theorem falsy_filter_is_absent_witness:
  "\<not> truthy (JNum 0) \<and>
   getAllProperties_build [''city'' \<mapsto> JStr ''Vancouver'', ''owner_id'' \<mapsto> JNum 0] (JNum 10) =
   getAllProperties_build [''city'' \<mapsto> JStr ''Vancouver''] (JNum 10) \<and>
   ''owner_id'' \<in> set filter_keys \<and>
   \<not> has_condition ''owner_id'' (getAllProperties_build
     [''city'' \<mapsto> JStr ''Vancouver'', ''owner_id'' \<mapsto> JNum 0] (JNum 10)) \<and>
   has_condition ''owner_id'' (getAllProperties_build
     [''city'' \<mapsto> JStr ''Vancouver'', ''owner_id'' \<mapsto> JNum 7] (JNum 10)) \<and>
   bound_value [''owner_id'', ''=''] (getAllProperties_build
     [''city'' \<mapsto> JStr ''Vancouver'', ''owner_id'' \<mapsto> JNum 7] (JNum 10)) = Some (JStr ''7'') \<and>
   length (queryParams (getAllProperties_build
     [''city'' \<mapsto> JStr ''Vancouver'', ''owner_id'' \<mapsto> JNum 7] (JNum 10))) =
   1 + length (queryParams (getAllProperties_build [''city'' \<mapsto> JStr ''Vancouver''] (JNum 10)))"
proof -
  have e: "[''city'' \<mapsto> JStr ''Vancouver''](''owner_id'' := None) = [''city'' \<mapsto> JStr ''Vancouver'']"
    by (rule ext) simp
  have a: "\<not> truthy (JNum 0)" and b: "truthy (JNum 7)" and c: "''owner_id'' \<in> set filter_keys"
    by (simp_all add: filter_keys_def)
  have w: "filter_words ''owner_id'' = [''owner_id'', ''='']"
    and p: "filter_param ''owner_id'' (JNum 7) = JStr ''7''"
    by (simp_all add: filter_words_def filter_param_def show_int_def show_nat.simps digit_char_def)
  from falsy_filter_is_absent [of "JNum 0" "[''city'' \<mapsto> JStr ''Vancouver'']" "''owner_id''" "JNum 10"]
       falsy_filter_is_absent [of "JNum 7" "[''city'' \<mapsto> JStr ''Vancouver'']" "''owner_id''" "JNum 10"]
       a b c
  show ?thesis
    unfolding e w p by simp
qed

text \<open>
  C2, for the filters whose value is truthy (the test the code applies). The parameter
  list is the one the specification describes: one entry per filter with a truthy value,
  in the fixed order, then the limit. The placeholders of the text, read from left to
  right, are \<open>$1\<close>, \<open>$2\<close>, ... up to the number of parameters, each once. And the
  placeholder written in the condition of each filter selects the value that this filter
  contributed; a filter whose value is not truthy has no condition.
\<close>

theorem parameters_follow_placeholders:
  "queryParams (getAllProperties_build options limit) = spec_params options limit
   \<and> placeholders (queryString (getAllProperties_build options limit)) =
       [1..<Suc (length (queryParams (getAllProperties_build options limit)))]
   \<and> bound_value [''owner_id'', ''=''] (getAllProperties_build options limit) =
       (if truthy (get_prop options ''owner_id'')
        then Some (JStr (toString (get_prop options ''owner_id''))) else None)
   \<and> bound_value [''city'', ''LIKE''] (getAllProperties_build options limit) =
       (if truthy (get_prop options ''city'')
        then Some (JStr (''%'' @ toString (get_prop options ''city'') @ ''%'')) else None)
   \<and> bound_value [''cost_per_night'', ''/'', ''100'', ''>''] (getAllProperties_build options limit) =
       (if truthy (get_prop options ''minimum_price_per_night'')
        then Some (JStr (toString (get_prop options ''minimum_price_per_night''))) else None)
   \<and> bound_value [''cost_per_night'', ''/'', ''100'', ''<''] (getAllProperties_build options limit) =
       (if truthy (get_prop options ''maximum_price_per_night'')
        then Some (JStr (toString (get_prop options ''maximum_price_per_night''))) else None)
   \<and> bound_value [''HAVING'', ''AVG(property_reviews.rating)'', ''>='']
         (getAllProperties_build options limit) =
       (if truthy (get_prop options ''minimum_rating'')
        then Some (JStr (toString (get_prop options ''minimum_rating''))) else None)
   \<and> bound_value [''LIMIT''] (getAllProperties_build options limit) = Some (default_limit limit)"
proof -
  have "placeholders (queryString (getAllProperties_build options limit)) =
       [1..<Suc (length (queryParams (getAllProperties_build options limit)))]"
    using numbered_build [of options limit] by (simp only: numbered_def)
  then show ?thesis
    by (simp only: params_build bound_owner_id bound_city bound_minimum_price
        bound_maximum_price bound_minimum_rating bound_limit simp_thms)
qed

theorem parameters_follow_placeholders_witness:
  "queryParams (getAllProperties_build
      [''city'' \<mapsto> JStr ''Van'', ''maximum_price_per_night'' \<mapsto> JNum 200, ''minimum_rating'' \<mapsto> JStr ''4'']
      JUndefined) = [JStr ''%Van%'', JStr ''200'', JStr ''4'', JNum 10]
   \<and> placeholders (queryString (getAllProperties_build
      [''city'' \<mapsto> JStr ''Van'', ''maximum_price_per_night'' \<mapsto> JNum 200, ''minimum_rating'' \<mapsto> JStr ''4'']
      JUndefined)) = [1, 2, 3, 4]
   \<and> bound_value [''cost_per_night'', ''/'', ''100'', ''<''] (getAllProperties_build
      [''city'' \<mapsto> JStr ''Van'', ''maximum_price_per_night'' \<mapsto> JNum 200, ''minimum_rating'' \<mapsto> JStr ''4'']
      JUndefined) = Some (JStr ''200'')
   \<and> bound_value [''owner_id'', ''=''] (getAllProperties_build
      [''city'' \<mapsto> JStr ''Van'', ''maximum_price_per_night'' \<mapsto> JNum 200, ''minimum_rating'' \<mapsto> JStr ''4'']
      JUndefined) = None"
  using parameters_follow_placeholders
    [of "[''city'' \<mapsto> JStr ''Van'', ''maximum_price_per_night'' \<mapsto> JNum 200, ''minimum_rating'' \<mapsto> JStr ''4'']"
        JUndefined]
  by (simp add: spec_params_def get_prop_def default_limit_def show_int_def show_nat.simps
      digit_char_def upt_rec)

text \<open>
  C2 as stated, for every key that is present in the object, fails: an object that holds
  \<open>0\<close> under \<open>owner_id\<close> has the key, and the only parameter is the limit.
\<close>

theorem present_key_without_parameter_counterexample:
  "''owner_id'' \<in> dom [''owner_id'' \<mapsto> JNum 0]
   \<and> queryParams (getAllProperties_build [''owner_id'' \<mapsto> JNum 0] JUndefined) = [JNum 10]
   \<and> placeholders (queryString (getAllProperties_build [''owner_id'' \<mapsto> JNum 0] JUndefined)) = [1]"
  by (simp add: params_build spec_params_def get_prop_def default_limit_def
      numbered_build [unfolded numbered_def])

section \<open>Promises and the six operations\<close>

text \<open>
  An operation hands a statement text and a parameter list to the connection pool and
  gets a promise back. The pool is a capability: for a statement, its parameters and the
  state of the database it answers with an error or with rows, and leaves the database in
  a new state. The operations are written against any such pool.
\<close>

datatype error = Error string

fun message :: "error \<Rightarrow> string" where
  "message (Error m) = m"

datatype 'r "value" = VUndefined | VNull | VRow 'r | VRows "'r list"

datatype 'a settled = Fulfilled 'a | Rejected error

type_synonym ('db, 'r) pool = "string \<Rightarrow> jsval list \<Rightarrow> 'db \<Rightarrow> (error + 'r list) \<times> 'db"

text \<open>
  A promise is modelled by how it settles, together with the lines written to the console
  on the way. \<open>promise_then\<close> runs its handler on a fulfilled promise; a handler that
  throws (\<open>Inl\<close>) rejects the result. \<open>promise_catch\<close> runs its handler on a rejected
  promise and fulfils with what the handler returns.
\<close>

type_synonym 'a promise = "string list \<times> 'a settled"

definition query_promise :: "error + 'r list \<Rightarrow> 'r list promise" where
  "query_promise answer =
     ([], case answer of Inl err \<Rightarrow> Rejected err | Inr rows \<Rightarrow> Fulfilled rows)"

definition promise_then :: "('a \<Rightarrow> error + 'b) \<Rightarrow> 'a promise \<Rightarrow> 'b promise" where
  "promise_then f p =
     (case p of
        (out, Fulfilled x) \<Rightarrow>
          (case f x of Inl err \<Rightarrow> (out, Rejected err) | Inr y \<Rightarrow> (out, Fulfilled y))
      | (out, Rejected err) \<Rightarrow> (out, Rejected err))"

definition promise_catch :: "(error \<Rightarrow> string list \<times> 'a) \<Rightarrow> 'a promise \<Rightarrow> 'a promise" where
  "promise_catch h p =
     (case p of
        (out, Fulfilled x) \<Rightarrow> (out, Fulfilled x)
      | (out, Rejected err) \<Rightarrow> (case h err of (lines, y) \<Rightarrow> (out @ lines, Fulfilled y)))"

text \<open>\<open>res.rows[0]\<close>: the first row, or \<open>undefined\<close> when there is none.\<close>

definition first_row :: "'r list \<Rightarrow> 'r value" where
  "first_row rows = (case rows of [] \<Rightarrow> VUndefined | r # _ \<Rightarrow> VRow r)"

text \<open>The handler \<open>console.log(err.message); return null\<close>.\<close>

definition log_and_null :: "error \<Rightarrow> string list \<times> 'r value" where
  "log_and_null err = ([message err], VNull)"

text \<open>The handler \<open>console.log(err.message)\<close>, which returns nothing.\<close>

definition log_only :: "error \<Rightarrow> string list \<times> 'r value" where
  "log_only err = ([message err], VUndefined)"

text \<open>
  Each operation keeps its statement in a local constant \<open>queryString\<close>; the constants of
  the five operations with a fixed statement are named after their operation here.
\<close>

definition getUserWithEmail_queryString :: string where
  "getUserWithEmail_queryString =
     ''\<newline>  SELECT id,\<newline>    name,\<newline>    email,\<newline>    password\<newline>  FROM users\<newline>  WHERE email = $1;\<newline>  ''"

definition getUserWithEmail ::
  "('db, 'r) pool \<Rightarrow> jsval \<Rightarrow> 'db \<Rightarrow> 'r value promise \<times> 'db" where
  "getUserWithEmail pool email db =
     (let queryString = getUserWithEmail_queryString;
          (answer, db') = pool queryString [email] db
      in (promise_catch log_and_null
            (promise_then
               (\<lambda>rows. case first_row rows of
                          VUndefined \<Rightarrow> Inl (Error ''Invalid email address'')
                        | v \<Rightarrow> Inr v)
               (query_promise answer)),
          db'))"

definition getUserWithId_queryString :: string where
  "getUserWithId_queryString =
     ''\<newline>  SELECT id,\<newline>    name,\<newline>    email,\<newline>    password\<newline>  FROM users\<newline>  WHERE id = $1;\<newline>  ''"

definition getUserWithId ::
  "('db, 'r) pool \<Rightarrow> jsval \<Rightarrow> 'db \<Rightarrow> 'r value promise \<times> 'db" where
  "getUserWithId pool id' db =
     (let queryString = getUserWithId_queryString;
          (answer, db') = pool queryString [id'] db
      in (promise_catch log_and_null
            (promise_then
               (\<lambda>rows. case first_row rows of
                          VUndefined \<Rightarrow> Inl (Error ''Invalid user id'')
                        | v \<Rightarrow> Inr v)
               (query_promise answer)),
          db'))"

definition addUser_queryString :: string where
  "addUser_queryString =
     ''\<newline>  INSERT INTO users(name, password, email)\<newline>  VALUES($1, $2, $3)\<newline>  RETURNING *;\<newline>  ''"

definition addUser ::
  "('db, 'r) pool \<Rightarrow> jsobject \<Rightarrow> 'db \<Rightarrow> 'r value promise \<times> 'db" where
  "addUser pool user db =
     (let queryString = addUser_queryString;
          values = [get_prop user ''name'', get_prop user ''password'', get_prop user ''email''];
          (answer, db') = pool queryString values db
      in (promise_catch log_and_null
            (promise_then (\<lambda>rows. Inr (first_row rows)) (query_promise answer)),
          db'))"

definition getAllReservations_queryString :: string where
  "getAllReservations_queryString =
     ''\<newline>  SELECT reservations.id AS res_id,\<newline>    properties.*,\<newline>    reservations.start_date,\<newline>    reservations.end_date,\<newline>    AVG(rating) AS average_rating\<newline>  FROM reservations\<newline>    JOIN properties ON reservations.property_id = properties.id\<newline>    JOIN property_reviews ON properties.id = property_reviews.property_id\<newline>  WHERE reservations.guest_id = $1\<newline>  GROUP BY properties.id,\<newline>    reservations.id\<newline>  ORDER BY reservations.start_date\<newline>  LIMIT $2;\<newline>  ''"

definition getAllReservations ::
  "('db, 'r) pool \<Rightarrow> jsval \<Rightarrow> jsval \<Rightarrow> 'db \<Rightarrow> 'r value promise \<times> 'db" where
  "getAllReservations pool guest_id limit db =
     (let queryString = getAllReservations_queryString;
          values = [guest_id, default_limit limit];
          (answer, db') = pool queryString values db
      in (promise_catch log_and_null
            (promise_then (\<lambda>rows. Inr (VRows rows)) (query_promise answer)),
          db'))"

definition getAllProperties ::
  "('db, 'r) pool \<Rightarrow> jsobject \<Rightarrow> jsval \<Rightarrow> 'db \<Rightarrow> 'r value promise \<times> 'db" where
  "getAllProperties pool options limit db =
     (let b = getAllProperties_build options limit;
          (answer, db') = pool (queryString b) (queryParams b) db
      in (promise_catch log_only
            (promise_then (\<lambda>rows. Inr (VRows rows)) (query_promise answer)),
          db'))"

fun join_with :: "string \<Rightarrow> string list \<Rightarrow> string" where
  "join_with sep [] = []"
| "join_with sep [x] = x"
| "join_with sep (x # y # ys) = x @ sep @ join_with sep (y # ys)"

definition propertyValues :: "string list" where
  "propertyValues =
     [''owner_id'', ''title'', ''description'', ''thumbnail_photo_url'', ''cover_photo_url'',
      ''cost_per_night'', ''street'', ''city'', ''province'', ''post_code'', ''country'',
      ''parking_spaces'', ''number_of_bathrooms'', ''number_of_bedrooms'']"

definition addProperty_queryString :: string where
  "addProperty_queryString =
     ''\<newline>  INSERT INTO properties('' @ join_with '', '' propertyValues @ '')\<newline>  VALUES($1, $2, $3, $4, $5, $6, $7, $8, $9, $10, $11, $12, $13, $14)\<newline>  RETURNING *;\<newline>  ''"

definition addProperty ::
  "('db, 'r) pool \<Rightarrow> jsobject \<Rightarrow> 'db \<Rightarrow> 'r value promise \<times> 'db" where
  "addProperty pool property db =
     (let queryString = addProperty_queryString;
          values = map (\<lambda>value. get_prop property value) propertyValues;
          (answer, db') = pool queryString values db
      in (promise_catch log_and_null
            (promise_then (\<lambda>rows. Inr (first_row rows)) (query_promise answer)),
          db'))"


section \<open>The promise of every operation is fulfilled\<close>

lemmas operation_defs = getUserWithEmail_def getUserWithId_def addUser_def getAllReservations_def
  getAllProperties_def addProperty_def

lemmas promise_defs = query_promise_def promise_then_def promise_catch_def log_and_null_def
  log_only_def

lemma promise_catch_fulfils:
  "\<exists>out v. promise_catch h p = (out, Fulfilled v)"
  by (cases p; cases "snd p") (auto simp: promise_catch_def split: prod.splits)

lemma operations_fulfil:
  "\<exists>out v. fst (getUserWithEmail pool email db) = (out, Fulfilled v)"
  "\<exists>out v. fst (getUserWithId pool id' db) = (out, Fulfilled v)"
  "\<exists>out v. fst (addUser pool user db) = (out, Fulfilled v)"
  "\<exists>out v. fst (getAllReservations pool guest_id limit db) = (out, Fulfilled v)"
  "\<exists>out v. fst (getAllProperties pool options limit db) = (out, Fulfilled v)"
  "\<exists>out v. fst (addProperty pool property db) = (out, Fulfilled v)"
  by (simp_all add: operation_defs Let_def promise_catch_fulfils split: prod.splits)

section \<open>The database\<close>

text \<open>
  Modelled from the spec: the tables of the database (its schema is not among the source
  files). The columns are those the specification lists for users, properties and
  property_reviews. Every column holds a value: NULL in a stored row is outside the model.
  \<open>users_id_seq\<close> is the sequence that numbers new users.
\<close>

record user_row =
  u_id :: int
  u_name :: string
  u_email :: string
  u_password :: string

record property_row =
  p_id :: int
  p_owner_id :: int
  p_title :: string
  p_description :: string
  p_thumbnail_photo_url :: string
  p_cover_photo_url :: string
  p_cost_per_night :: int
  p_street :: string
  p_city :: string
  p_province :: string
  p_post_code :: string
  p_country :: string
  p_parking_spaces :: int
  p_number_of_bathrooms :: int
  p_number_of_bedrooms :: int

record review_row =
  r_property_id :: int
  r_rating :: int

record database =
  users :: "user_row list"
  users_id_seq :: int
  properties :: "property_row list"
  property_reviews :: "review_row list"

text \<open>
  A row of a result: a user, or a property together with its \<open>average_rating\<close>.
\<close>

datatype row = UserRow user_row | PropertyRow property_row rat

section \<open>Parameters as the database reads them\<close>

text \<open>
  A parameter reaches the database as text, or as NULL for \<open>null\<close> and \<open>undefined\<close>;
  the database reads the text at the type the statement needs in that place. The integer
  reader accepts an optional sign and decimal digits, the numeric reader in addition a
  fraction part; other spellings are answered with an error.
\<close>

fun param_text :: "jsval \<Rightarrow> string option" where
  "param_text JUndefined = None"
| "param_text JNull = None"
| "param_text v = Some (toString v)"

definition parse_nat_text :: "string \<Rightarrow> nat option" where
  "parse_nat_text ds = (if ds \<noteq> [] \<and> list_all is_digit ds then Some (read_nat ds) else None)"

definition parse_int_text :: "string \<Rightarrow> int option" where
  "parse_int_text s =
     (case s of
        [] \<Rightarrow> None
      | c # ds \<Rightarrow>
          if c = CHR ''-'' then map_option (\<lambda>n. - int n) (parse_nat_text ds)
          else if c = CHR ''+'' then map_option int (parse_nat_text ds)
          else map_option int (parse_nat_text s))"

definition parse_fraction :: "string \<Rightarrow> rat option" where
  "parse_fraction s =
     (let whole = takeWhile is_digit s; rest = dropWhile is_digit s
      in case rest of
           [] \<Rightarrow> map_option of_nat (parse_nat_text whole)
         | c # fr \<Rightarrow>
             if c = CHR ''.'' \<and> (whole \<noteq> [] \<or> fr \<noteq> []) \<and> list_all is_digit fr
             then Some (of_nat (read_nat whole) + of_nat (read_nat fr) / 10 ^ length fr)
             else None)"

definition parse_numeric_text :: "string \<Rightarrow> rat option" where
  "parse_numeric_text s =
     (case s of
        [] \<Rightarrow> None
      | c # ds \<Rightarrow>
          if c = CHR ''-'' then map_option uminus (parse_fraction ds)
          else if c = CHR ''+'' then parse_fraction ds
          else parse_fraction s)"

definition int4_min :: int where "int4_min = - (2 ^ 31)"
definition int4_max :: int where "int4_max = 2 ^ 31 - 1"
definition int8_min :: int where "int8_min = - (2 ^ 63)"
definition int8_max :: int where "int8_max = 2 ^ 63 - 1"

text \<open>The value of a parameter read as an integer between \<open>lo\<close> and \<open>hi\<close>; \<open>None\<close> is NULL.\<close>

definition int_param :: "int \<Rightarrow> int \<Rightarrow> jsval \<Rightarrow> error + int option" where
  "int_param lo hi v =
     (case param_text v of
        None \<Rightarrow> Inr None
      | Some t \<Rightarrow>
          (case parse_int_text t of
             None \<Rightarrow> Inl (Error (''invalid input syntax for type integer: '' @ t))
           | Some i \<Rightarrow>
               if lo \<le> i \<and> i \<le> hi then Inr (Some i)
               else Inl (Error (''value out of range for type integer: '' @ t))))"

definition numeric_param :: "jsval \<Rightarrow> error + rat option" where
  "numeric_param v =
     (case param_text v of
        None \<Rightarrow> Inr None
      | Some t \<Rightarrow>
          (case parse_numeric_text t of
             None \<Rightarrow> Inl (Error (''invalid input syntax for type numeric: '' @ t))
           | Some x \<Rightarrow> Inr (Some x)))"

section \<open>The statements the database understands\<close>

text \<open>
  The database is PostgreSQL, reached through the pool; it is not part of the source. What
  follows gives the statements of the source the meaning SQL gives them: a statement text
  is split into words and read clause by clause, its parameters are read at the types of
  the columns they are compared with, and the rows are computed from the tables.
\<close>

subsection \<open>LIKE\<close>

text \<open>
  The pattern language of LIKE: \<open>%\<close> stands for any run of characters, \<open>_\<close> for any one
  character, a backslash makes the character after it literal, and every other character
  stands for itself, upper and lower case being different characters. A pattern that ends
  in a lone backslash is not a pattern.
\<close>

fun like_valid :: "string \<Rightarrow> bool" where
  "like_valid [] = True"
| "like_valid [c] = (c \<noteq> CHR 0x5C)"
| "like_valid (c # d # cs) = (if c = CHR 0x5C then like_valid cs else like_valid (d # cs))"

fun like_match :: "string \<Rightarrow> string \<Rightarrow> bool" where
  "like_match [] s = (s = [])"
| "like_match (p # ps) s =
     (if p = CHR ''%'' then
        like_match ps s \<or> (case s of [] \<Rightarrow> False | _ # cs \<Rightarrow> like_match (p # ps) cs)
      else if p = CHR 0x5C then
        (case ps of
           [] \<Rightarrow> False
         | q # qs \<Rightarrow> (case s of [] \<Rightarrow> False | c # cs \<Rightarrow> c = q \<and> like_match qs cs))
      else if p = CHR ''_'' then
        (case s of [] \<Rightarrow> False | _ # cs \<Rightarrow> like_match ps cs)
      else
        (case s of [] \<Rightarrow> False | c # cs \<Rightarrow> c = p \<and> like_match ps cs))"

declare like_match.simps [simp del]

subsection \<open>The property search\<close>

text \<open>
  The conditions a property search can carry, each with the number of its placeholder,
  and the search as a whole.
\<close>

datatype cond = OwnerIs nat | CityLike nat | CostAbove nat | CostBelow nat

record search =
  conds :: "cond list"
  having_ix :: "nat option"
  limit_ix :: nat

definition parse_cond :: "string list \<Rightarrow> (cond \<times> string list) option" where
  "parse_cond ws =
     (case strip_prefix [''owner_id'', ''=''] ws of
        Some rest \<Rightarrow>
          (case rest of [] \<Rightarrow> None
           | p # rest' \<Rightarrow> map_option (\<lambda>i. (OwnerIs i, rest')) (parse_placeholder p))
      | None \<Rightarrow>
     (case strip_prefix [''city'', ''LIKE''] ws of
        Some rest \<Rightarrow>
          (case rest of [] \<Rightarrow> None
           | p # rest' \<Rightarrow> map_option (\<lambda>i. (CityLike i, rest')) (parse_placeholder p))
      | None \<Rightarrow>
     (case strip_prefix [''cost_per_night'', ''/'', ''100'', ''>''] ws of
        Some rest \<Rightarrow>
          (case rest of [] \<Rightarrow> None
           | p # rest' \<Rightarrow> map_option (\<lambda>i. (CostAbove i, rest')) (parse_placeholder p))
      | None \<Rightarrow>
     (case strip_prefix [''cost_per_night'', ''/'', ''100'', ''<''] ws of
        Some rest \<Rightarrow>
          (case rest of [] \<Rightarrow> None
           | p # rest' \<Rightarrow> map_option (\<lambda>i. (CostBelow i, rest')) (parse_placeholder p))
      | None \<Rightarrow> None))))"

lemma strip_prefix_length: "strip_prefix xs ys = Some zs \<Longrightarrow> length zs \<le> length ys"
  by (induction xs ys rule: strip_prefix.induct) (auto split: if_splits)

lemma parse_cond_shorter: "parse_cond ws = Some (c, rest) \<Longrightarrow> length rest < length ws"
  by (auto simp: parse_cond_def split: option.splits list.splits dest!: strip_prefix_length)

text \<open>Further conditions, each introduced by AND, up to the first word that is not AND.\<close>

function parse_more :: "string list \<Rightarrow> (cond list \<times> string list) option" where
  "parse_more ws =
     (case ws of
        [] \<Rightarrow> Some ([], [])
      | w # rest \<Rightarrow>
          if w = ''AND'' then
            (case parse_cond rest of
               None \<Rightarrow> None
             | Some (c, rest') \<Rightarrow>
                 (case parse_more rest' of
                    None \<Rightarrow> None
                  | Some (cs, rest'') \<Rightarrow> Some (c # cs, rest'')))
          else Some ([], ws))"
  by pat_completeness auto
termination
  by (relation "measure length") (auto dest!: parse_cond_shorter)

declare parse_more.simps [simp del]

text \<open>An optional WHERE clause: one condition, then further ones joined by AND.\<close>

definition parse_where :: "string list \<Rightarrow> (cond list \<times> string list) option" where
  "parse_where ws =
     (case ws of
        [] \<Rightarrow> Some ([], [])
      | w # rest \<Rightarrow>
          if w = ''WHERE'' then
            (case parse_cond rest of
               None \<Rightarrow> None
             | Some (c, rest') \<Rightarrow>
                 (case parse_more rest' of
                    None \<Rightarrow> None
                  | Some (cs, rest'') \<Rightarrow> Some (c # cs, rest'')))
          else Some ([], ws))"

definition parse_having :: "string list \<Rightarrow> (nat option \<times> string list) option" where
  "parse_having ws =
     (case strip_prefix [''HAVING'', ''AVG(property_reviews.rating)'', ''>=''] ws of
        None \<Rightarrow> Some (None, ws)
      | Some rest \<Rightarrow>
          (case rest of [] \<Rightarrow> None
           | p # rest' \<Rightarrow> map_option (\<lambda>i. (Some i, rest')) (parse_placeholder p)))"

definition parse_order_limit :: "string list \<Rightarrow> nat option" where
  "parse_order_limit ws =
     (case strip_prefix [''ORDER'', ''BY'', ''cost_per_night'', ''LIMIT''] ws of
        None \<Rightarrow> None
      | Some rest \<Rightarrow>
          (case rest of
             [p] \<Rightarrow> parse_placeholder p
           | [p, semi] \<Rightarrow> if semi = '';'' then parse_placeholder p else None
           | _ \<Rightarrow> None))"

text \<open>
  The whole statement: the fixed SELECT ... FROM ... JOIN part, an optional WHERE clause,
  GROUP BY properties.id, an optional HAVING clause, ORDER BY cost_per_night LIMIT.
  Any other sequence of words is a syntax error (\<open>None\<close>).
\<close>

definition parse_search :: "string list \<Rightarrow> search option" where
  "parse_search ws =
     (case strip_prefix select_words ws of
        None \<Rightarrow> None
      | Some ws1 \<Rightarrow>
     (case parse_where ws1 of
        None \<Rightarrow> None
      | Some (cs, ws2) \<Rightarrow>
     (case strip_prefix [''GROUP'', ''BY'', ''properties.id''] ws2 of
        None \<Rightarrow> None
      | Some ws3 \<Rightarrow>
     (case parse_having ws3 of
        None \<Rightarrow> None
      | Some (h, ws4) \<Rightarrow>
     (case parse_order_limit ws4 of
        None \<Rightarrow> None
      | Some l \<Rightarrow> Some \<lparr> conds = cs, having_ix = h, limit_ix = l \<rparr>)))))"


subsection \<open>Running a property search\<close>

text \<open>
  Every placeholder must name a supplied parameter, and every supplied parameter must be
  named by a placeholder; otherwise the statement is refused.
\<close>

fun cond_ix :: "cond \<Rightarrow> nat" where
  "cond_ix (OwnerIs i) = i"
| "cond_ix (CityLike i) = i"
| "cond_ix (CostAbove i) = i"
| "cond_ix (CostBelow i) = i"

definition search_ixs :: "search \<Rightarrow> nat list" where
  "search_ixs q =
     map cond_ix (conds q) @ (case having_ix q of None \<Rightarrow> [] | Some i \<Rightarrow> [i]) @ [limit_ix q]"

definition params_fit :: "nat list \<Rightarrow> jsval list \<Rightarrow> bool" where
  "params_fit ixs ps \<longleftrightarrow>
     list_all (\<lambda>i. 0 < i \<and> i \<le> length ps) ixs \<and>
     list_all (\<lambda>k. k \<in> set ixs) [1..<Suc (length ps)]"

text \<open>A condition with its parameter read at the type of the column; \<open>None\<close> is NULL.\<close>

datatype test =
  OwnerEquals "int option" | CityMatches "string option"
  | CostOver "int option" | CostUnder "int option"

fun read_cond :: "jsval list \<Rightarrow> cond \<Rightarrow> error + test" where
  "read_cond ps (OwnerIs i) =
     (case int_param int4_min int4_max (ps ! (i - 1)) of
        Inl e \<Rightarrow> Inl e | Inr v \<Rightarrow> Inr (OwnerEquals v))"
| "read_cond ps (CityLike i) =
     (case param_text (ps ! (i - 1)) of
        None \<Rightarrow> Inr (CityMatches None)
      | Some pat \<Rightarrow>
          if like_valid pat then Inr (CityMatches (Some pat))
          else Inl (Error ''LIKE pattern must not end with escape character''))"
| "read_cond ps (CostAbove i) =
     (case int_param int4_min int4_max (ps ! (i - 1)) of
        Inl e \<Rightarrow> Inl e | Inr v \<Rightarrow> Inr (CostOver v))"
| "read_cond ps (CostBelow i) =
     (case int_param int4_min int4_max (ps ! (i - 1)) of
        Inl e \<Rightarrow> Inl e | Inr v \<Rightarrow> Inr (CostUnder v))"

fun read_conds :: "jsval list \<Rightarrow> cond list \<Rightarrow> error + test list" where
  "read_conds ps [] = Inr []"
| "read_conds ps (c # cs) =
     (case read_cond ps c of
        Inl e \<Rightarrow> Inl e
      | Inr t \<Rightarrow> (case read_conds ps cs of Inl e \<Rightarrow> Inl e | Inr ts \<Rightarrow> Inr (t # ts)))"

text \<open>Division of integers as SQL has it: the quotient is cut off towards zero.\<close>

definition sql_div :: "int \<Rightarrow> int \<Rightarrow> int" where
  "sql_div a b = sgn a * sgn b * (\<bar>a\<bar> div \<bar>b\<bar>)"

text \<open>Whether a property passes a condition. A comparison with NULL passes nothing.\<close>

fun passes :: "test \<Rightarrow> property_row \<Rightarrow> bool" where
  "passes (OwnerEquals None) p = False"
| "passes (OwnerEquals (Some i)) p = (p_owner_id p = i)"
| "passes (CityMatches None) p = False"
| "passes (CityMatches (Some pat)) p = like_match pat (p_city p)"
| "passes (CostOver None) p = False"
| "passes (CostOver (Some a)) p = (sql_div (p_cost_per_night p) 100 > a)"
| "passes (CostUnder None) p = False"
| "passes (CostUnder (Some b)) p = (sql_div (p_cost_per_night p) 100 < b)"

definition ratings_of :: "database \<Rightarrow> property_row \<Rightarrow> int list" where
  "ratings_of db p = map r_rating (filter (\<lambda>r. r_property_id r = p_id p) (property_reviews db))"

definition average :: "int list \<Rightarrow> rat" where
  "average xs = of_int (sum_list xs) / of_nat (length xs)"

text \<open>The HAVING clause: absent, or a bound on the average rating (NULL passes nothing).\<close>

definition read_having :: "jsval list \<Rightarrow> nat option \<Rightarrow> error + rat option option" where
  "read_having ps h =
     (case h of
        None \<Rightarrow> Inr None
      | Some i \<Rightarrow> (case numeric_param (ps ! (i - 1)) of Inl e \<Rightarrow> Inl e | Inr v \<Rightarrow> Inr (Some v)))"

fun having_passes :: "rat option option \<Rightarrow> rat \<Rightarrow> bool" where
  "having_passes None avg = True"
| "having_passes (Some None) avg = False"
| "having_passes (Some (Some v)) avg = (avg \<ge> v)"

text \<open>The LIMIT: a count that must not be negative; NULL is no limit.\<close>

definition read_limit :: "jsval list \<Rightarrow> nat \<Rightarrow> error + nat option" where
  "read_limit ps i =
     (case int_param int8_min int8_max (ps ! (i - 1)) of
        Inl e \<Rightarrow> Inl e
      | Inr None \<Rightarrow> Inr None
      | Inr (Some n) \<Rightarrow> if n < 0 then Inl (Error ''LIMIT must not be negative'') else Inr (Some (nat n)))"

fun take_limit :: "nat option \<Rightarrow> 'a list \<Rightarrow> 'a list" where
  "take_limit None xs = xs"
| "take_limit (Some n) xs = take n xs"

text \<open>
  The rows of a search. The join with property_reviews keeps the properties that have a
  review; each is one group, with the average of its ratings. The groups that pass WHERE
  and HAVING are ordered by cost_per_night (rows of equal cost stay in table order) and
  cut at the limit. Errors in the parameters are found before any row is looked at.
\<close>

definition run_search :: "database \<Rightarrow> search \<Rightarrow> jsval list \<Rightarrow> error + row list" where
  "run_search db q ps =
     (if \<not> params_fit (search_ixs q) ps
      then Inl (Error ''bind message supplies the wrong number of parameters'')
      else
        (case read_conds ps (conds q) of
           Inl e \<Rightarrow> Inl e
         | Inr ts \<Rightarrow>
        (case read_having ps (having_ix q) of
           Inl e \<Rightarrow> Inl e
         | Inr h \<Rightarrow>
        (case read_limit ps (limit_ix q) of
           Inl e \<Rightarrow> Inl e
         | Inr l \<Rightarrow>
             Inr (map (\<lambda>p. PropertyRow p (average (ratings_of db p)))
                    (take_limit l
                      (sort_key p_cost_per_night
                        (filter (\<lambda>p. having_passes h (average (ratings_of db p)))
                          (filter (\<lambda>p. ratings_of db p \<noteq> [] \<and> list_all (\<lambda>t. passes t p) ts)
                            (properties db))))))))))"

subsection \<open>The statements on users\<close>

definition user_by_email_words :: "string list" where
  "user_by_email_words =
     [''SELECT'', ''id,'', ''name,'', ''email,'', ''password'', ''FROM'', ''users'',
      ''WHERE'', ''email'', ''='', ''$1'', '';'']"

definition user_by_id_words :: "string list" where
  "user_by_id_words =
     [''SELECT'', ''id,'', ''name,'', ''email,'', ''password'', ''FROM'', ''users'',
      ''WHERE'', ''id'', ''='', ''$1'', '';'']"

definition insert_user_words :: "string list" where
  "insert_user_words =
     [''INSERT'', ''INTO'', ''users(name,'', ''password,'', ''email)'',
      ''VALUES($1,'', ''$2,'', ''$3)'', ''RETURNING'', ''*'', '';'']"

definition select_user_by_email :: "database \<Rightarrow> jsval list \<Rightarrow> error + row list" where
  "select_user_by_email db ps =
     (case ps of
        [v] \<Rightarrow>
          (case param_text v of
             None \<Rightarrow> Inr []
           | Some t \<Rightarrow> Inr (map UserRow (filter (\<lambda>u. u_email u = t) (users db))))
      | _ \<Rightarrow> Inl (Error ''bind message supplies the wrong number of parameters''))"

definition select_user_by_id :: "database \<Rightarrow> jsval list \<Rightarrow> error + row list" where
  "select_user_by_id db ps =
     (case ps of
        [v] \<Rightarrow>
          (case int_param int4_min int4_max v of
             Inl e \<Rightarrow> Inl e
           | Inr None \<Rightarrow> Inr []
           | Inr (Some i) \<Rightarrow> Inr (map UserRow (filter (\<lambda>u. u_id u = i) (users db))))
      | _ \<Rightarrow> Inl (Error ''bind message supplies the wrong number of parameters''))"

text \<open>
  Modelled from the spec: the insertion of a user. The new row takes the next number of
  the sequence as its id; the email must not be in the table yet (``Email unique (enforced
  by the database)''), and no column may be NULL. The sequence moves on even when the row
  is refused.
\<close>

definition insert_user :: "database \<Rightarrow> jsval list \<Rightarrow> (error + row list) \<times> database" where
  "insert_user db ps =
     (case ps of
        [n, p, e] \<Rightarrow>
          (case (param_text n, param_text p, param_text e) of
             (Some name, Some password, Some email) \<Rightarrow>
               (let db1 = db\<lparr>users_id_seq := users_id_seq db + 1\<rparr>;
                    new = \<lparr> u_id = users_id_seq db1, u_name = name, u_email = email,
                            u_password = password \<rparr>
                in if email \<in> set (map u_email (users db)) \<or> u_id new \<in> set (map u_id (users db))
                   then (Inl (Error ''duplicate key value violates unique constraint''), db1)
                   else (Inr [UserRow new], db1\<lparr>users := users db @ [new]\<rparr>))
           | _ \<Rightarrow> (Inl (Error ''null value violates not-null constraint''), db))
      | _ \<Rightarrow> (Inl (Error ''bind message supplies the wrong number of parameters''), db))"

subsection \<open>The pool\<close>

text \<open>
  The connection pool over this database, for the statements of \<open>getUserWithEmail\<close>,
  \<open>getUserWithId\<close>, \<open>addUser\<close> and \<open>getAllProperties\<close>. The statements of
  \<open>getAllReservations\<close> and \<open>addProperty\<close> are not interpreted: \<open>pg_query\<close> answers
  them like any text it cannot read, and nothing is concluded from that answer.
\<close>

definition pg_query :: "(database, row) pool" where
  "pg_query sql ps db =
     (let ws = sql_words sql
      in if ws = user_by_email_words then (select_user_by_email db ps, db)
         else if ws = user_by_id_words then (select_user_by_id db ps, db)
         else if ws = insert_user_words then insert_user db ps
         else (case parse_search ws of
                 None \<Rightarrow> (Inl (Error ''syntax error''), db)
               | Some q \<Rightarrow> (run_search db q ps, db)))"

section \<open>Users\<close>

lemma words_user_by_email:
  "sql_words getUserWithEmail_queryString = user_by_email_words"
  by (simp add: getUserWithEmail_queryString_def sql_words_def flush_def is_space_def
      user_by_email_words_def)

lemma words_user_by_id:
  "sql_words getUserWithId_queryString = user_by_id_words"
  by (simp add: getUserWithId_queryString_def sql_words_def flush_def is_space_def
      user_by_id_words_def)

lemma words_insert_user:
  "sql_words addUser_queryString = insert_user_words"
  by (simp add: addUser_queryString_def sql_words_def flush_def is_space_def insert_user_words_def)

lemma pg_query_user_by_email:
  "pg_query getUserWithEmail_queryString ps db = (select_user_by_email db ps, db)"
  unfolding pg_query_def words_user_by_email by simp

lemma pg_query_user_by_id:
  "pg_query getUserWithId_queryString ps db = (select_user_by_id db ps, db)"
  unfolding pg_query_def words_user_by_id
  by (simp add: user_by_email_words_def user_by_id_words_def)

lemma pg_query_insert_user:
  "pg_query addUser_queryString ps db = insert_user db ps"
  unfolding pg_query_def words_insert_user
  by (simp add: insert_user_words_def user_by_email_words_def user_by_id_words_def)

lemma getUserWithEmail_pg:
  "getUserWithEmail pg_query (JStr t) db =
     (case filter (\<lambda>u. u_email u = t) (users db) of
        [] \<Rightarrow> (([''Invalid email address''], Fulfilled VNull), db)
      | u # _ \<Rightarrow> (([], Fulfilled (VRow (UserRow u))), db))"
  by (simp add: getUserWithEmail_def pg_query_user_by_email select_user_by_email_def
      promise_defs first_row_def split: list.splits)

text \<open>
  C6. An email that no row of the users table carries gets the message
  \<open>Invalid email address\<close> on the console and a promise fulfilled with \<open>null\<close>; the
  database is left as it was. With any pool: when the pool answers the statement of this
  call (the SELECT with the email as its one parameter) with no row, the result is the
  same; when it answers this statement with an error, whatever it does on other
  statements, the message of the error is logged and the promise is fulfilled with
  \<open>null\<close>. In every case the promise is fulfilled: the operation never rejects.
\<close>

theorem unknown_email_is_null:
  "(t \<notin> set (map u_email (users db)) \<longrightarrow>
      getUserWithEmail pg_query (JStr t) db = (([''Invalid email address''], Fulfilled VNull), db))
   \<and> (fst (pool getUserWithEmail_queryString [email] d) = Inr [] \<longrightarrow>
      fst (getUserWithEmail pool email d) = ([''Invalid email address''], Fulfilled VNull))
   \<and> (\<forall>err. fst (pool getUserWithEmail_queryString [email] d) = Inl err \<longrightarrow>
      fst (getUserWithEmail pool email d) = ([message err], Fulfilled VNull))
   \<and> (\<exists>out v. fst (getUserWithEmail pool email d) = (out, Fulfilled v))"
proof (intro conjI impI allI)
  assume "t \<notin> set (map u_email (users db))"
  then have "filter (\<lambda>u. u_email u = t) (users db) = []"
    by (auto simp: filter_empty_conv)
  then show "getUserWithEmail pg_query (JStr t) db =
      (([''Invalid email address''], Fulfilled VNull), db)"
    by (simp add: getUserWithEmail_pg)
next
  assume "fst (pool getUserWithEmail_queryString [email] d) = Inr []"
  then show "fst (getUserWithEmail pool email d) = ([''Invalid email address''], Fulfilled VNull)"
    by (simp add: getUserWithEmail_def Let_def split_beta promise_defs first_row_def)
next
  fix err
  assume "fst (pool getUserWithEmail_queryString [email] d) = Inl err"
  then show "fst (getUserWithEmail pool email d) = ([message err], Fulfilled VNull)"
    by (simp add: getUserWithEmail_def Let_def split_beta promise_defs)
next
  show "\<exists>out v. fst (getUserWithEmail pool email d) = (out, Fulfilled v)"
    by (rule operations_fulfil)
qed

definition two_users :: database where
  "two_users =
     \<lparr> users = [\<lparr>u_id = 1, u_name = ''Ann'', u_email = ''ann@example.com'', u_password = ''x''\<rparr>,
                \<lparr>u_id = 2, u_name = ''Raj'', u_email = ''raj@example.com'', u_password = ''y''\<rparr>],
       users_id_seq = 2, properties = [], property_reviews = [] \<rparr>"

text \<open>
  A pool that loses its connection on one statement and passes every other statement on
  to the database.
\<close>

definition failing_on :: "string \<Rightarrow> ('db, 'r) pool \<Rightarrow> ('db, 'r) pool" where
  "failing_on stmt pool sql ps db =
     (if sql = stmt then (Inl (Error ''Connection terminated unexpectedly''), db)
      else pool sql ps db)"

theorem unknown_email_is_null_witness:
  "''bob@example.com'' \<notin> set (map u_email (users two_users))
   \<and> getUserWithEmail pg_query (JStr ''bob@example.com'') two_users =
       (([''Invalid email address''], Fulfilled VNull), two_users)
   \<and> fst (pg_query getUserWithEmail_queryString [JStr ''bob@example.com''] two_users) = Inr []
   \<and> fst (getUserWithEmail (failing_on getUserWithEmail_queryString pg_query)
            (JStr ''ann@example.com'') two_users)
       = ([''Connection terminated unexpectedly''], Fulfilled VNull)
   \<and> fst (getUserWithEmail (failing_on getUserWithId_queryString pg_query)
            (JStr ''ann@example.com'') two_users)
       = ([], Fulfilled (VRow (UserRow
            \<lparr>u_id = 1, u_name = ''Ann'', u_email = ''ann@example.com'', u_password = ''x''\<rparr>)))"
proof -
  have a: "''bob@example.com'' \<notin> set (map u_email (users two_users))"
    by (simp add: two_users_def)
  have b: "fst (pg_query getUserWithEmail_queryString [JStr ''bob@example.com''] two_users) = Inr []"
    by (simp add: pg_query_user_by_email select_user_by_email_def two_users_def)
  have c: "fst (failing_on getUserWithEmail_queryString pg_query getUserWithEmail_queryString
             [JStr ''ann@example.com''] two_users) = Inl (Error ''Connection terminated unexpectedly'')"
    by (simp add: failing_on_def)
  have d: "fst (getUserWithEmail (failing_on getUserWithId_queryString pg_query)
            (JStr ''ann@example.com'') two_users)
       = ([], Fulfilled (VRow (UserRow
            \<lparr>u_id = 1, u_name = ''Ann'', u_email = ''ann@example.com'', u_password = ''x''\<rparr>)))"
    by (simp add: getUserWithEmail_def failing_on_def getUserWithEmail_queryString_def
        getUserWithId_queryString_def pg_query_user_by_email [unfolded getUserWithEmail_queryString_def]
        select_user_by_email_def two_users_def promise_defs first_row_def)
  note T = unknown_email_is_null
    [where t = "''bob@example.com''" and db = two_users and d = two_users]
  have 1: "getUserWithEmail pg_query (JStr ''bob@example.com'') two_users =
       (([''Invalid email address''], Fulfilled VNull), two_users)"
    using T [THEN conjunct1] a by blast
  have 2: "fst (getUserWithEmail (failing_on getUserWithEmail_queryString pg_query)
            (JStr ''ann@example.com'') two_users)
       = ([message (Error ''Connection terminated unexpectedly'')], Fulfilled VNull)"
    using T [where pool = "failing_on getUserWithEmail_queryString pg_query"
               and email = "JStr ''ann@example.com''", THEN conjunct2, THEN conjunct2, THEN conjunct1] c
    by blast
  from a 1 b 2 d show ?thesis
    by simp
qed

lemma addUser_pg:
  assumes "get_prop user ''name'' = JStr n" "get_prop user ''password'' = JStr pw"
    "get_prop user ''email'' = JStr e"
  shows "addUser pg_query user db =
     (let db1 = db\<lparr>users_id_seq := users_id_seq db + 1\<rparr>;
          new = \<lparr> u_id = users_id_seq db + 1, u_name = n, u_email = e, u_password = pw \<rparr>
      in if e \<in> set (map u_email (users db)) \<or> users_id_seq db + 1 \<in> set (map u_id (users db))
         then (([''duplicate key value violates unique constraint''], Fulfilled VNull), db1)
         else (([], Fulfilled (VRow (UserRow new))), db1\<lparr>users := users db @ [new]\<rparr>))"
  by (simp add: addUser_def assms pg_query_insert_user insert_user_def Let_def promise_defs
      first_row_def)

text \<open>
  C9. A user object whose name, password and email are strings, with an email that is not
  in the users table yet: when \<open>addUser\<close> succeeds (its promise is fulfilled with the
  inserted row), \<open>getUserWithEmail\<close> with the same email on the database as \<open>addUser\<close>
  left it is fulfilled with a row, nothing is logged, and the name and the email of that
  row are those of the user object. The row is the one \<open>addUser\<close> returned.
\<close>

theorem addUser_then_getUserWithEmail:
  assumes "get_prop user ''name'' = JStr n"
    and "get_prop user ''password'' = JStr pw"
    and "get_prop user ''email'' = JStr e"
    and "e \<notin> set (map u_email (users db))"
    and "addUser pg_query user db = ((out, Fulfilled (VRow r)), db')"
  shows "\<exists>u. fst (getUserWithEmail pg_query (JStr e) db') = ([], Fulfilled (VRow (UserRow u)))
             \<and> u_name u = n \<and> u_email u = e \<and> r = UserRow u"
proof -
  let ?new = "\<lparr> u_id = users_id_seq db + 1, u_name = n, u_email = e, u_password = pw \<rparr>"
  from assms(5) have r: "r = UserRow ?new"
    and db': "db' = db\<lparr>users_id_seq := users_id_seq db + 1, users := users db @ [?new]\<rparr>"
    by (auto simp: addUser_pg [OF assms(1-3)] Let_def split: if_splits)
  from assms(4) have "filter (\<lambda>u. u_email u = e) (users db) = []"
    by (auto simp: filter_empty_conv)
  then have "fst (getUserWithEmail pg_query (JStr e) db') = ([], Fulfilled (VRow (UserRow ?new)))"
    by (simp add: getUserWithEmail_pg db')
  with r show ?thesis by auto
qed

theorem addUser_then_getUserWithEmail_witness:
  "fst (getUserWithEmail pg_query (JStr ''bob@example.com'')
         (snd (addUser pg_query
            [''name'' \<mapsto> JStr ''Bob'', ''password'' \<mapsto> JStr ''secret'', ''email'' \<mapsto> JStr ''bob@example.com'']
            two_users)))
     = ([], Fulfilled (VRow (UserRow
          \<lparr>u_id = 3, u_name = ''Bob'', u_email = ''bob@example.com'', u_password = ''secret''\<rparr>)))"
proof -
  let ?user = "[''name'' \<mapsto> JStr ''Bob'', ''password'' \<mapsto> JStr ''secret'', ''email'' \<mapsto> JStr ''bob@example.com'']"
  let ?new = "\<lparr>u_id = 3, u_name = ''Bob'', u_email = ''bob@example.com'', u_password = ''secret''\<rparr>"
  have 1: "get_prop ?user ''name'' = JStr ''Bob''"
    and 2: "get_prop ?user ''password'' = JStr ''secret''"
    and 3: "get_prop ?user ''email'' = JStr ''bob@example.com''"
    by (simp_all add: get_prop_def)
  have 4: "''bob@example.com'' \<notin> set (map u_email (users two_users))"
    by (simp add: two_users_def)
  have 5: "addUser pg_query ?user two_users =
      (([], Fulfilled (VRow (UserRow ?new))), snd (addUser pg_query ?user two_users))"
    by (simp add: addUser_pg [OF 1 2 3] two_users_def Let_def)
  from addUser_then_getUserWithEmail [OF 1 2 3 4 5]
  show ?thesis by auto
qed

section \<open>Property searches on the database\<close>

lemma strip_prefix_append [simp]: "strip_prefix xs (xs @ ys) = Some ys"
  by (induction xs) auto

lemma statement_words_not_users:
  "statement_words o' c mn mx r \<noteq> user_by_email_words"
  "statement_words o' c mn mx r \<noteq> user_by_id_words"
  "statement_words o' c mn mx r \<noteq> insert_user_words"
  by (simp_all add: statement_words_def select_words_def user_by_email_words_def
      user_by_id_words_def insert_user_words_def)

text \<open>What \<open>getAllProperties\<close> does on this database, in terms of the words of its statement.\<close>

lemma getAllProperties_pg:
  "getAllProperties pg_query options limit db =
     (case parse_search
             (statement_words (truthy (get_prop options ''owner_id''))
                (truthy (get_prop options ''city''))
                (truthy (get_prop options ''minimum_price_per_night''))
                (truthy (get_prop options ''maximum_price_per_night''))
                (truthy (get_prop options ''minimum_rating''))) of
        None \<Rightarrow> (([''syntax error''], Fulfilled VUndefined), db)
      | Some q \<Rightarrow>
          (case run_search db q (spec_params options limit) of
             Inl e \<Rightarrow> (([message e], Fulfilled VUndefined), db)
           | Inr rows \<Rightarrow> (([], Fulfilled (VRows rows)), db)))"
  by (simp add: getAllProperties_def pg_query_def Let_def words_build params_build
      statement_words_not_users promise_defs split: option.splits sum.splits)

subsection \<open>Integers written and read back\<close>

lemma parse_nat_text_show_nat [simp]: "parse_nat_text (show_nat n) = Some n"
  by (simp add: parse_nat_text_def)

lemma show_nat_head: "\<exists>c cs. show_nat n = c # cs \<and> is_digit c"
proof (cases "show_nat n")
  case Nil
  then show ?thesis by simp
next
  case (Cons c cs)
  then have "c \<in> set (show_nat n)" by simp
  then have "is_digit c" by (rule show_nat_digits)
  with Cons show ?thesis by simp
qed

lemma is_digit_not_sign: "is_digit c \<Longrightarrow> c \<noteq> CHR ''-'' \<and> c \<noteq> CHR ''+''"
  by (auto simp: is_digit_def)

lemma parse_int_text_show_int [simp]: "parse_int_text (show_int i) = Some i"
proof (cases "i < 0")
  case True
  then show ?thesis by (simp add: parse_int_text_def show_int_def)
next
  case False
  obtain c cs where s: "show_nat (nat i) = c # cs" and d: "is_digit c"
    using show_nat_head by blast
  have "parse_nat_text (c # cs) = Some (nat i)"
    using parse_nat_text_show_nat [of "nat i"] by (simp add: s)
  with False d show ?thesis
    by (simp add: parse_int_text_def show_int_def s is_digit_not_sign)
qed

lemma int_param_JNum:
  "int_param lo hi (JNum i) =
     (if lo \<le> sint i \<and> sint i \<le> hi then Inr (Some (sint i))
      else Inl (Error (''value out of range for type integer: '' @ show_int (sint i))))"
  by (simp add: int_param_def)

text \<open>A number of the model always fits the type of LIMIT.\<close>

lemma number_fits_int8: "int8_min \<le> sint (n :: 54 word) \<and> sint n \<le> int8_max"
  using sint_ge [of n] sint_lt [of n] by (simp add: int8_min_def int8_max_def)

subsection \<open>A search without filters\<close>

lemma parse_no_filters:
  "parse_search (statement_words False False False False False) =
     Some \<lparr> conds = [], having_ix = None, limit_ix = 1 \<rparr>"
  by (simp add: statement_words_def parse_search_def parse_where_def parse_having_def
      parse_order_limit_def cnt_def)

lemma search_no_filters:
  assumes "no_filters options" and "default_limit limit = JNum n"
  shows "fst (getAllProperties pg_query options limit db) =
     (if sint n < 0 then ([''LIMIT must not be negative''], Fulfilled VUndefined)
      else ([], Fulfilled (VRows
             (map (\<lambda>p. PropertyRow p (average (ratings_of db p)))
               (take (nat (sint n))
                 (sort_key p_cost_per_night
                   (filter (\<lambda>p. ratings_of db p \<noteq> []) (properties db))))))))"
proof -
  from assms(1) have f: "\<not> truthy (get_prop options ''owner_id'')"
    "\<not> truthy (get_prop options ''city'')"
    "\<not> truthy (get_prop options ''minimum_price_per_night'')"
    "\<not> truthy (get_prop options ''maximum_price_per_night'')"
    "\<not> truthy (get_prop options ''minimum_rating'')"
    by (simp_all add: no_filters_def filter_keys_def)
  have p: "spec_params options limit = [JNum n]"
    by (simp add: spec_params_def f assms(2))
  show ?thesis
    by (simp add: getAllProperties_pg f parse_no_filters p run_search_def search_ixs_def
        params_fit_def read_having_def read_limit_def int_param_JNum number_fits_int8)
qed

text \<open>A small database for the examples: five properties, the fifth without a review.\<close>

definition blank_property :: property_row where
  "blank_property =
     \<lparr> p_id = 0, p_owner_id = 0, p_title = [], p_description = [], p_thumbnail_photo_url = [],
       p_cover_photo_url = [], p_cost_per_night = 0, p_street = [], p_city = [], p_province = [],
       p_post_code = [], p_country = [], p_parking_spaces = 0, p_number_of_bathrooms = 0,
       p_number_of_bedrooms = 0 \<rparr>"

definition listing :: "int \<Rightarrow> int \<Rightarrow> int \<Rightarrow> string \<Rightarrow> property_row" where
  "listing i owner cost town =
     blank_property\<lparr> p_id := i, p_owner_id := owner, p_cost_per_night := cost, p_city := town \<rparr>"

definition five_listings :: database where
  "five_listings =
     \<lparr> users = [], users_id_seq = 0,
       properties =
         [listing 1 1 25000 ''Vancouver'', listing 2 1 15000 ''vancouver'',
          listing 3 2 10000 ''Toronto'', listing 4 2 20000 ''Toronto'',
          listing 5 3 12000 ''Montreal''],
       property_reviews =
         [\<lparr>r_property_id = 1, r_rating = 4\<rparr>, \<lparr>r_property_id = 1, r_rating = 5\<rparr>,
          \<lparr>r_property_id = 2, r_rating = 3\<rparr>, \<lparr>r_property_id = 3, r_rating = 5\<rparr>,
          \<lparr>r_property_id = 4, r_rating = 4\<rparr>] \<rparr>"

lemma five_listings_reviewed:
  "filter (\<lambda>p. ratings_of five_listings p \<noteq> []) (properties five_listings) =
     [listing 1 1 25000 ''Vancouver'', listing 2 1 15000 ''vancouver'', listing 3 2 10000 ''Toronto'',
      listing 4 2 20000 ''Toronto'']"
  by (simp add: five_listings_def ratings_of_def listing_def blank_property_def)

lemma five_listings_averages:
  "average (ratings_of five_listings (listing 1 1 25000 ''Vancouver'')) = 9 / 2"
  "average (ratings_of five_listings (listing 2 1 15000 ''vancouver'')) = 3"
  "average (ratings_of five_listings (listing 3 2 10000 ''Toronto'')) = 5"
  "average (ratings_of five_listings (listing 4 2 20000 ''Toronto'')) = 4"
  by (simp_all add: five_listings_def ratings_of_def listing_def blank_property_def average_def)

lemma listing_simps [simp]:
  "p_id (listing i owner cost town) = i"
  "p_owner_id (listing i owner cost town) = owner"
  "p_cost_per_night (listing i owner cost town) = cost"
  "p_city (listing i owner cost town) = town"
  by (simp_all add: listing_def)

text \<open>
  C7, as the code has it. With no filter and a limit that is a number \<open>n\<close> from 0 on
  (the default 10 when the limit is \<open>undefined\<close>), the promise is fulfilled with a list of
  property rows, at most \<open>n\<close> of them, in non-decreasing order of cost_per_night, each a
  property of the table with its average rating.
\<close>

theorem no_filters_limit_and_order:
  assumes "no_filters options" and "default_limit limit = JNum n" and "0 \<le> sint n"
  shows "\<exists>ps. fst (getAllProperties pg_query options limit db) =
                ([], Fulfilled (VRows (map (\<lambda>p. PropertyRow p (average (ratings_of db p))) ps)))
             \<and> int (length ps) \<le> sint n
             \<and> sorted (map p_cost_per_night ps)
             \<and> set ps \<subseteq> set (properties db)"
proof -
  let ?ps = "take (nat (sint n)) (sort_key p_cost_per_night
               (filter (\<lambda>p. ratings_of db p \<noteq> []) (properties db)))"
  have 1: "fst (getAllProperties pg_query options limit db) =
      ([], Fulfilled (VRows (map (\<lambda>p. PropertyRow p (average (ratings_of db p))) ?ps)))"
    using assms(3) by (simp add: search_no_filters [OF assms(1,2)])
  have 2: "int (length ?ps) \<le> sint n"
    using assms(3) by simp
  have "sorted (map p_cost_per_night (sort_key p_cost_per_night
               (filter (\<lambda>p. ratings_of db p \<noteq> []) (properties db))))"
    by (rule sorted_sort_key)
  then have 3: "sorted (map p_cost_per_night ?ps)"
    by (simp add: take_map [symmetric] sorted_wrt_take)
  have 4: "set ?ps \<subseteq> set (properties db)"
    using set_take_subset [of "nat (sint n)"] by fastforce
  from 1 2 3 4 show ?thesis by blast
qed

theorem no_filters_limit_and_order_witness:
  "no_filters Map.empty \<and> default_limit (JNum 2) = JNum 2 \<and> 0 \<le> sint (2 :: 54 word)
   \<and> (\<exists>ps. fst (getAllProperties pg_query Map.empty (JNum 2) five_listings) =
             ([], Fulfilled (VRows (map (\<lambda>p. PropertyRow p (average (ratings_of five_listings p))) ps)))
           \<and> int (length ps) \<le> 2 \<and> sorted (map p_cost_per_night ps)
           \<and> set ps \<subseteq> set (properties five_listings))
   \<and> fst (getAllProperties pg_query Map.empty (JNum 2) five_listings) =
       ([], Fulfilled (VRows [PropertyRow (listing 3 2 10000 ''Toronto'') 5,
                              PropertyRow (listing 2 1 15000 ''vancouver'') 3]))
   \<and> (\<exists>ps. fst (getAllProperties pg_query Map.empty JUndefined five_listings) =
             ([], Fulfilled (VRows (map (\<lambda>p. PropertyRow p (average (ratings_of five_listings p))) ps)))
           \<and> int (length ps) \<le> 10 \<and> sorted (map p_cost_per_night ps))"
proof -
  have a: "no_filters Map.empty"
    by (simp add: no_filters_def filter_keys_def get_prop_def)
  have b: "default_limit (JNum 2) = JNum 2" and b': "default_limit JUndefined = JNum 10"
    by (simp_all add: default_limit_def)
  have c: "0 \<le> sint (2 :: 54 word)" and c': "0 \<le> sint (10 :: 54 word)"
    by simp_all
  have e: "fst (getAllProperties pg_query Map.empty (JNum 2) five_listings) =
       ([], Fulfilled (VRows [PropertyRow (listing 3 2 10000 ''Toronto'') 5,
                              PropertyRow (listing 2 1 15000 ''vancouver'') 3]))"
    by (simp add: search_no_filters [OF a b] five_listings_reviewed five_listings_averages)
  have s2: "sint (2 :: 54 word) = 2" and s10: "sint (10 :: 54 word) = 10"
    by simp_all
  from no_filters_limit_and_order [OF a b c, of five_listings, unfolded s2]
       no_filters_limit_and_order [OF a b' c', of five_listings, unfolded s10] a b c e
  show ?thesis by blast
qed

text \<open>
  C7 as stated, for every limit value, fails at a negative limit: no list has at most
  \<open>-1\<close> rows, and the database refuses the statement, so that the promise is fulfilled
  with \<open>undefined\<close> and not with a list.
\<close>

theorem negative_limit_counterexample:
  "fst (getAllProperties pg_query Map.empty (JNum (- 1)) five_listings) =
     ([''LIMIT must not be negative''], Fulfilled VUndefined)"
proof -
  have a: "no_filters Map.empty"
    by (simp add: no_filters_def filter_keys_def get_prop_def)
  have b: "default_limit (JNum (- 1)) = JNum (- 1)"
    by (simp add: default_limit_def)
  show ?thesis
    by (simp add: search_no_filters [OF a b])
qed

subsection \<open>Which statements the database accepts\<close>

text \<open>
  Without \<open>owner_id\<close> every combination of the other filters gives a statement the
  database can read. With \<open>owner_id\<close> the statement can be read when no other condition
  follows in the WHERE clause, and is a syntax error otherwise (the second condition is
  introduced by WHERE again).
\<close>

lemma parse_without_owner:
  "parse_search (statement_words False c mn mx r) =
     Some \<lparr> conds = (if c then [CityLike 1] else []) @
                     (if mn then [CostAbove (Suc (cnt c))] else []) @
                     (if mx then [CostBelow (Suc (cnt c + cnt mn))] else []),
            having_ix = (if r then Some (Suc (cnt c + cnt mn + cnt mx)) else None),
            limit_ix = Suc (cnt c + cnt mn + cnt mx + cnt r) \<rparr>"
  by (cases c; cases mn; cases mx; cases r)
     (simp_all add: statement_words_def parse_search_def parse_where_def parse_having_def
        parse_order_limit_def parse_cond_def parse_more.simps cnt_def)

lemma parse_owner_alone:
  "parse_search (statement_words True False False False r) =
     Some \<lparr> conds = [OwnerIs 1],
            having_ix = (if r then Some 2 else None),
            limit_ix = Suc (Suc (cnt r)) \<rparr>"
  by (cases r)
     (simp_all add: statement_words_def parse_search_def parse_where_def parse_having_def
        parse_order_limit_def parse_cond_def parse_more.simps cnt_def)

lemma parse_owner_and_more:
  "c \<or> mn \<or> mx \<Longrightarrow> parse_search (statement_words True c mn mx r) = None"
  by (cases c; cases mn; cases mx; cases r)
     (simp_all add: statement_words_def parse_search_def parse_where_def parse_having_def
        parse_order_limit_def parse_cond_def parse_more.simps cnt_def)

subsection \<open>The rows of a search pass its conditions\<close>

lemma run_search_sound:
  assumes "run_search db q ps = Inr rows" and "row \<in> set rows"
  obtains p ts where "row = PropertyRow p (average (ratings_of db p))"
    and "p \<in> set (properties db)" and "ratings_of db p \<noteq> []"
    and "read_conds ps (conds q) = Inr ts" and "list_all (\<lambda>t. passes t p) ts"
proof -
  from assms(1) obtain ts h l where ts: "read_conds ps (conds q) = Inr ts"
    and rows: "rows = map (\<lambda>p. PropertyRow p (average (ratings_of db p)))
                 (take_limit l
                   (sort_key p_cost_per_night
                     (filter (\<lambda>p. having_passes h (average (ratings_of db p)))
                       (filter (\<lambda>p. ratings_of db p \<noteq> [] \<and> list_all (\<lambda>t. passes t p) ts)
                         (properties db)))))"
    by (auto simp: run_search_def split: if_splits sum.splits)
  have sub: "set (take_limit l xs) \<subseteq> set xs" for xs :: "property_row list"
    by (cases l) (auto dest: in_set_takeD)
  from assms(2) rows obtain p where row: "row = PropertyRow p (average (ratings_of db p))"
    and p: "p \<in> set (take_limit l
                   (sort_key p_cost_per_night
                     (filter (\<lambda>p. having_passes h (average (ratings_of db p)))
                       (filter (\<lambda>p. ratings_of db p \<noteq> [] \<and> list_all (\<lambda>t. passes t p) ts)
                         (properties db)))))"
    by auto
  from p sub have "p \<in> set (sort_key p_cost_per_night
                     (filter (\<lambda>p. having_passes h (average (ratings_of db p)))
                       (filter (\<lambda>p. ratings_of db p \<noteq> [] \<and> list_all (\<lambda>t. passes t p) ts)
                         (properties db))))"
    by blast
  then have "p \<in> set (properties db)" "ratings_of db p \<noteq> []" "list_all (\<lambda>t. passes t p) ts"
    by auto
  with row ts that show thesis by blast
qed

lemma sql_div_100:
  "sql_div c 100 = (if 0 \<le> c then c div 100 else - ((- c) div 100))"
  by (simp add: sql_div_def sgn_if)

lemma div_100_bounds:
  fixes x :: int
  shows "100 * (x div 100) \<le> x" and "x < 100 * (x div 100) + 100"
proof -
  have "x = 100 * (x div 100) + x mod 100" by simp
  moreover have "0 \<le> x mod 100" "x mod 100 < 100" by simp_all
  ultimately show "100 * (x div 100) \<le> x" and "x < 100 * (x div 100) + 100"
    by linarith+
qed

lemma sql_div_100_above: "a < sql_div c 100 \<Longrightarrow> 100 * a < c"
  using div_100_bounds [of c] div_100_bounds [of "- c"]
  by (simp add: sql_div_100 split: if_splits)

lemma sql_div_100_below: "sql_div c 100 < b \<Longrightarrow> c < 100 * b"
  using div_100_bounds [of c] div_100_bounds [of "- c"]
  by (simp add: sql_div_100 split: if_splits)

subsection \<open>The price filters\<close>

text \<open>
  The whole number that the value of a price option denotes (none when the option is not
  present), whether the database can read that value as an integer of the column's type,
  and the test on a property that the specification describes for the two options.
\<close>

definition price_bound :: "jsval \<Rightarrow> int option" where
  "price_bound v = (if truthy v then parse_int_text (toString v) else None)"

definition price_readable :: "jsval \<Rightarrow> bool" where
  "price_readable v \<longleftrightarrow>
     \<not> truthy v \<or>
     (case parse_int_text (toString v) of
        None \<Rightarrow> False
      | Some a \<Rightarrow> int4_min \<le> a \<and> a \<le> int4_max)"

definition spec_price_test :: "int option \<Rightarrow> int option \<Rightarrow> property_row \<Rightarrow> bool" where
  "spec_price_test lo hi p \<longleftrightarrow>
     (case lo of None \<Rightarrow> True | Some a \<Rightarrow> a < sql_div (p_cost_per_night p) 100) \<and>
     (case hi of None \<Rightarrow> True | Some b \<Rightarrow> sql_div (p_cost_per_night p) 100 < b)"

lemma int_param_JStr:
  "int_param lo hi (JStr t) =
     (case parse_int_text t of
        None \<Rightarrow> Inl (Error (''invalid input syntax for type integer: '' @ t))
      | Some i \<Rightarrow>
          if lo \<le> i \<and> i \<le> hi then Inr (Some i)
          else Inl (Error (''value out of range for type integer: '' @ t)))"
  by (simp add: int_param_def)

lemma price_bound_JNum: "n \<noteq> 0 \<Longrightarrow> price_bound (JNum n) = Some (sint n)"
  by (simp add: price_bound_def)

lemma read_conds_member:
  "read_conds ps cs = Inr ts \<Longrightarrow> c \<in> set cs \<Longrightarrow> \<exists>t \<in> set ts. read_cond ps c = Inr t"
proof (induction cs arbitrary: ts)
  case Nil
  then show ?case by simp
next
  case (Cons d cs)
  then show ?case
    by (auto split: sum.splits)
qed

text \<open>The rows of a search with only price filters, exactly.\<close>

lemma search_prices:
  assumes "\<not> truthy (get_prop options ''owner_id'')" and "\<not> truthy (get_prop options ''city'')"
    and "\<not> truthy (get_prop options ''minimum_rating'')"
    and "price_readable (get_prop options ''minimum_price_per_night'')"
    and "price_readable (get_prop options ''maximum_price_per_night'')"
    and "default_limit limit = JNum n" and "0 \<le> sint n"
  shows "fst (getAllProperties pg_query options limit db) =
     ([], Fulfilled (VRows
        (map (\<lambda>p. PropertyRow p (average (ratings_of db p)))
          (take (nat (sint n))
            (sort_key p_cost_per_night
              (filter (\<lambda>p. ratings_of db p \<noteq> []
                         \<and> spec_price_test (price_bound (get_prop options ''minimum_price_per_night''))
                             (price_bound (get_prop options ''maximum_price_per_night'')) p)
                 (properties db)))))))"
proof -
  let ?mn = "truthy (get_prop options ''minimum_price_per_night'')"
  let ?mx = "truthy (get_prop options ''maximum_price_per_night'')"
  show ?thesis
  proof (cases ?mn; cases ?mx)
    assume t: "?mn" "?mx"
    with assms(4,5) obtain a b
      where a: "parse_int_text (toString (get_prop options ''minimum_price_per_night'')) = Some a"
        "int4_min \<le> a" "a \<le> int4_max"
      and b: "parse_int_text (toString (get_prop options ''maximum_price_per_night'')) = Some b"
        "int4_min \<le> b" "b \<le> int4_max"
      by (auto simp: price_readable_def split: option.splits)
    show ?thesis
      using assms(1-3,6,7) t a b
      by (simp add: getAllProperties_pg parse_without_owner spec_params_def run_search_def
          search_ixs_def params_fit_def read_having_def read_limit_def int_param_JNum
          int_param_JStr number_fits_int8 cnt_def upt_rec price_bound_def spec_price_test_def)
  next
    assume t: "?mn" "\<not> ?mx"
    with assms(4) obtain a
      where a: "parse_int_text (toString (get_prop options ''minimum_price_per_night'')) = Some a"
        "int4_min \<le> a" "a \<le> int4_max"
      by (auto simp: price_readable_def split: option.splits)
    show ?thesis
      using assms(1-3,6,7) t a
      by (simp add: getAllProperties_pg parse_without_owner spec_params_def run_search_def
          search_ixs_def params_fit_def read_having_def read_limit_def int_param_JNum
          int_param_JStr number_fits_int8 cnt_def upt_rec price_bound_def spec_price_test_def)
  next
    assume t: "\<not> ?mn" "?mx"
    with assms(5) obtain b
      where b: "parse_int_text (toString (get_prop options ''maximum_price_per_night'')) = Some b"
        "int4_min \<le> b" "b \<le> int4_max"
      by (auto simp: price_readable_def split: option.splits)
    show ?thesis
      using assms(1-3,6,7) t b
      by (simp add: getAllProperties_pg parse_without_owner spec_params_def run_search_def
          search_ixs_def params_fit_def read_having_def read_limit_def int_param_JNum
          int_param_JStr number_fits_int8 cnt_def upt_rec price_bound_def spec_price_test_def)
  next
    assume t: "\<not> ?mn" "\<not> ?mx"
    show ?thesis
      using assms(1-3,6,7) t
      by (simp add: getAllProperties_pg parse_without_owner spec_params_def run_search_def
          search_ixs_def params_fit_def read_having_def read_limit_def int_param_JNum
          number_fits_int8 cnt_def upt_rec price_bound_def spec_price_test_def)
  qed
qed

text \<open>Every row of a search with a minimum price lies strictly above it.\<close>

lemma minimum_price_sound:
  assumes mn: "truthy (get_prop options ''minimum_price_per_night'')"
    and res: "fst (getAllProperties pg_query options limit db) = (out, Fulfilled (VRows rows))"
    and row: "row \<in> set rows"
  shows "\<exists>p avg a. row = PropertyRow p avg \<and> p \<in> set (properties db)
           \<and> price_bound (get_prop options ''minimum_price_per_night'') = Some a
           \<and> a < sql_div (p_cost_per_night p) 100"
proof -
  let ?c = "truthy (get_prop options ''city'')"
  let ?mx = "truthy (get_prop options ''maximum_price_per_night'')"
  let ?r = "truthy (get_prop options ''minimum_rating'')"
  let ?ps = "spec_params options limit"
  have no_owner: "\<not> truthy (get_prop options ''owner_id'')"
  proof
    assume "truthy (get_prop options ''owner_id'')"
    with mn res show False
      by (simp add: getAllProperties_pg parse_owner_and_more)
  qed
  define q where "q = \<lparr> conds = (if ?c then [CityLike 1] else []) @
                     (if True then [CostAbove (Suc (cnt ?c))] else []) @
                     (if ?mx then [CostBelow (Suc (cnt ?c + cnt True))] else []),
            having_ix = (if ?r then Some (Suc (cnt ?c + cnt True + cnt ?mx)) else None),
            limit_ix = Suc (cnt ?c + cnt True + cnt ?mx + cnt ?r) \<rparr>"
  have pq: "parse_search (statement_words False ?c True ?mx ?r) = Some q"
    unfolding q_def by (rule parse_without_owner)
  have cq: "CostAbove (Suc (cnt ?c)) \<in> set (conds q)"
    by (simp add: q_def)
  have run: "run_search db q ?ps = Inr rows"
    using res mn no_owner by (simp add: getAllProperties_pg pq split: sum.splits)
  from run_search_sound [OF run row]
  obtain p ts where r: "row = PropertyRow p (average (ratings_of db p))"
    and p: "p \<in> set (properties db)"
    and ts: "read_conds ?ps (conds q) = Inr ts" and pass: "list_all (\<lambda>t. passes t p) ts"
    by blast
  from read_conds_member [OF ts cq]
  obtain t where t: "t \<in> set ts" "read_cond ?ps (CostAbove (Suc (cnt ?c))) = Inr t"
    by blast
  have nth: "?ps ! cnt ?c = JStr (toString (get_prop options ''minimum_price_per_night''))"
    using mn no_owner by (simp add: spec_params_def cnt_def)
  from t(1) pass have "passes t p"
    by (simp add: list_all_iff)
  moreover from t(2) nth obtain a
    where a: "parse_int_text (toString (get_prop options ''minimum_price_per_night'')) = Some a"
      and ta: "t = CostOver (Some a)"
    by (auto simp: int_param_JStr split: sum.splits option.splits if_splits)
  ultimately have "a < sql_div (p_cost_per_night p) 100"
    by simp
  moreover have "price_bound (get_prop options ''minimum_price_per_night'') = Some a"
    using mn a by (simp add: price_bound_def)
  ultimately show ?thesis
    using r p by blast
qed

text \<open>Every row of a search with a maximum price lies strictly below it.\<close>

lemma maximum_price_sound:
  assumes mx: "truthy (get_prop options ''maximum_price_per_night'')"
    and res: "fst (getAllProperties pg_query options limit db) = (out, Fulfilled (VRows rows))"
    and row: "row \<in> set rows"
  shows "\<exists>p avg b. row = PropertyRow p avg \<and> p \<in> set (properties db)
           \<and> price_bound (get_prop options ''maximum_price_per_night'') = Some b
           \<and> sql_div (p_cost_per_night p) 100 < b"
proof -
  let ?c = "truthy (get_prop options ''city'')"
  let ?mn = "truthy (get_prop options ''minimum_price_per_night'')"
  let ?r = "truthy (get_prop options ''minimum_rating'')"
  let ?ps = "spec_params options limit"
  have no_owner: "\<not> truthy (get_prop options ''owner_id'')"
  proof
    assume "truthy (get_prop options ''owner_id'')"
    with mx res show False
      by (simp add: getAllProperties_pg parse_owner_and_more)
  qed
  define q where "q = \<lparr> conds = (if ?c then [CityLike 1] else []) @
                     (if ?mn then [CostAbove (Suc (cnt ?c))] else []) @
                     (if True then [CostBelow (Suc (cnt ?c + cnt ?mn))] else []),
            having_ix = (if ?r then Some (Suc (cnt ?c + cnt ?mn + cnt True)) else None),
            limit_ix = Suc (cnt ?c + cnt ?mn + cnt True + cnt ?r) \<rparr>"
  have pq: "parse_search (statement_words False ?c ?mn True ?r) = Some q"
    unfolding q_def by (rule parse_without_owner)
  have cq: "CostBelow (Suc (cnt ?c + cnt ?mn)) \<in> set (conds q)"
    by (simp add: q_def)
  have run: "run_search db q ?ps = Inr rows"
    using res mx no_owner by (simp add: getAllProperties_pg pq split: sum.splits)
  from run_search_sound [OF run row]
  obtain p ts where r: "row = PropertyRow p (average (ratings_of db p))"
    and p: "p \<in> set (properties db)"
    and ts: "read_conds ?ps (conds q) = Inr ts" and pass: "list_all (\<lambda>t. passes t p) ts"
    by blast
  from read_conds_member [OF ts cq]
  obtain t where t: "t \<in> set ts" "read_cond ?ps (CostBelow (Suc (cnt ?c + cnt ?mn))) = Inr t"
    by blast
  have nth: "?ps ! (cnt ?c + cnt ?mn) = JStr (toString (get_prop options ''maximum_price_per_night''))"
    using mx no_owner by (simp add: spec_params_def cnt_def)
  from t(1) pass have "passes t p"
    by (simp add: list_all_iff)
  moreover from t(2) nth obtain b
    where b: "parse_int_text (toString (get_prop options ''maximum_price_per_night'')) = Some b"
      and tb: "t = CostUnder (Some b)"
    by (auto simp: int_param_JStr split: sum.splits option.splits if_splits)
  ultimately have "sql_div (p_cost_per_night p) 100 < b"
    by simp
  moreover have "price_bound (get_prop options ''maximum_price_per_night'') = Some b"
    using mx b by (simp add: price_bound_def)
  ultimately show ?thesis
    using r p by blast
qed

text \<open>Both price filters given as numbers: every row lies strictly between them.\<close>

lemma price_range_sound:
  assumes "get_prop options ''minimum_price_per_night'' = JNum a" and "a \<noteq> 0"
    and "get_prop options ''maximum_price_per_night'' = JNum b" and "b \<noteq> 0"
    and res: "fst (getAllProperties pg_query options limit db) = (out, Fulfilled (VRows rows))"
    and row: "row \<in> set rows"
  shows "\<exists>p avg. row = PropertyRow p avg \<and> p \<in> set (properties db)
            \<and> sint a < sql_div (p_cost_per_night p) 100 \<and> sql_div (p_cost_per_night p) 100 < sint b
            \<and> 100 * sint a < p_cost_per_night p \<and> p_cost_per_night p < 100 * sint b"
proof -
  have t: "truthy (get_prop options ''minimum_price_per_night'')"
    "truthy (get_prop options ''maximum_price_per_night'')"
    using assms(1-4) by simp_all
  from minimum_price_sound [OF t(1) res row] assms(1,2)
  obtain p avg where p: "row = PropertyRow p avg" "p \<in> set (properties db)"
    "sint a < sql_div (p_cost_per_night p) 100"
    by (auto simp: price_bound_JNum)
  from maximum_price_sound [OF t(2) res row] assms(3,4) p(1)
  have "sql_div (p_cost_per_night p) 100 < sint b"
    by (auto simp: price_bound_JNum)
  with p show ?thesis
    using sql_div_100_above sql_div_100_below by blast
qed

text \<open>
  C8. Each price filter on its own, whatever the other options and the limit are. When
  \<open>minimum_price_per_night\<close> is present, the statement has the condition
  \<open>cost_per_night / 100 > $i\<close> bound to its value, and every row of a returned list is a
  property whose cost in cents, divided by 100 as SQL divides integers, is strictly above
  the number \<open>a\<close> that the value denotes; the cost itself is then above \<open>100 a\<close>. When
  \<open>maximum_price_per_night\<close> is present, the condition is \<open>cost_per_night / 100 < $j\<close> and
  every row is strictly below its number \<open>b\<close>. And when no other filter is given, the
  list is exactly the properties with a review that pass the strict comparisons of the
  price filters that are present, ordered by cost and cut at the limit. In particular,
  with the numbers \<open>a\<close> and \<open>b\<close> as minimum and maximum (100 and 200, say), every row of
  a returned list has \<open>a < cost_per_night / 100 < b\<close>.
\<close>

theorem price_filters_are_strict:
  "(truthy (get_prop options ''minimum_price_per_night'') \<longrightarrow>
      bound_value [''cost_per_night'', ''/'', ''100'', ''>''] (getAllProperties_build options limit)
        = Some (JStr (toString (get_prop options ''minimum_price_per_night''))))
   \<and> (truthy (get_prop options ''maximum_price_per_night'') \<longrightarrow>
      bound_value [''cost_per_night'', ''/'', ''100'', ''<''] (getAllProperties_build options limit)
        = Some (JStr (toString (get_prop options ''maximum_price_per_night''))))
   \<and> (\<forall>out rows row.
        truthy (get_prop options ''minimum_price_per_night'')
        \<and> fst (getAllProperties pg_query options limit db) = (out, Fulfilled (VRows rows))
        \<and> row \<in> set rows \<longrightarrow>
        (\<exists>p avg a. row = PropertyRow p avg \<and> p \<in> set (properties db)
           \<and> price_bound (get_prop options ''minimum_price_per_night'') = Some a
           \<and> a < sql_div (p_cost_per_night p) 100 \<and> 100 * a < p_cost_per_night p))
   \<and> (\<forall>out rows row.
        truthy (get_prop options ''maximum_price_per_night'')
        \<and> fst (getAllProperties pg_query options limit db) = (out, Fulfilled (VRows rows))
        \<and> row \<in> set rows \<longrightarrow>
        (\<exists>p avg b. row = PropertyRow p avg \<and> p \<in> set (properties db)
           \<and> price_bound (get_prop options ''maximum_price_per_night'') = Some b
           \<and> sql_div (p_cost_per_night p) 100 < b \<and> p_cost_per_night p < 100 * b))
   \<and> (\<not> truthy (get_prop options ''owner_id'') \<and> \<not> truthy (get_prop options ''city'')
        \<and> \<not> truthy (get_prop options ''minimum_rating'')
        \<and> price_readable (get_prop options ''minimum_price_per_night'')
        \<and> price_readable (get_prop options ''maximum_price_per_night'')
        \<and> default_limit limit = JNum n \<and> 0 \<le> sint n \<longrightarrow>
        fst (getAllProperties pg_query options limit db) =
          ([], Fulfilled (VRows
             (map (\<lambda>p. PropertyRow p (average (ratings_of db p)))
               (take (nat (sint n))
                 (sort_key p_cost_per_night
                   (filter (\<lambda>p. ratings_of db p \<noteq> []
                              \<and> spec_price_test
                                  (price_bound (get_prop options ''minimum_price_per_night''))
                                  (price_bound (get_prop options ''maximum_price_per_night'')) p)
                      (properties db))))))))
   \<and> (\<forall>out rows row a b.
        get_prop options ''minimum_price_per_night'' = JNum a \<and> a \<noteq> 0
        \<and> get_prop options ''maximum_price_per_night'' = JNum b \<and> b \<noteq> 0
        \<and> fst (getAllProperties pg_query options limit db) = (out, Fulfilled (VRows rows))
        \<and> row \<in> set rows \<longrightarrow>
        (\<exists>p avg. row = PropertyRow p avg \<and> p \<in> set (properties db)
           \<and> sint a < sql_div (p_cost_per_night p) 100 \<and> sql_div (p_cost_per_night p) 100 < sint b
           \<and> 100 * sint a < p_cost_per_night p \<and> p_cost_per_night p < 100 * sint b))"
proof (intro conjI impI allI)
  assume "truthy (get_prop options ''minimum_price_per_night'')"
  then show "bound_value [''cost_per_night'', ''/'', ''100'', ''>''] (getAllProperties_build options limit)
        = Some (JStr (toString (get_prop options ''minimum_price_per_night'')))"
    by (simp add: bound_minimum_price)
next
  assume "truthy (get_prop options ''maximum_price_per_night'')"
  then show "bound_value [''cost_per_night'', ''/'', ''100'', ''<''] (getAllProperties_build options limit)
        = Some (JStr (toString (get_prop options ''maximum_price_per_night'')))"
    by (simp add: bound_maximum_price)
next
  fix out rows row
  assume "truthy (get_prop options ''minimum_price_per_night'')
        \<and> fst (getAllProperties pg_query options limit db) = (out, Fulfilled (VRows rows))
        \<and> row \<in> set rows"
  then show "\<exists>p avg a. row = PropertyRow p avg \<and> p \<in> set (properties db)
           \<and> price_bound (get_prop options ''minimum_price_per_night'') = Some a
           \<and> a < sql_div (p_cost_per_night p) 100 \<and> 100 * a < p_cost_per_night p"
    using minimum_price_sound [of options limit db out rows row] sql_div_100_above by blast
next
  fix out rows row
  assume "truthy (get_prop options ''maximum_price_per_night'')
        \<and> fst (getAllProperties pg_query options limit db) = (out, Fulfilled (VRows rows))
        \<and> row \<in> set rows"
  then show "\<exists>p avg b. row = PropertyRow p avg \<and> p \<in> set (properties db)
           \<and> price_bound (get_prop options ''maximum_price_per_night'') = Some b
           \<and> sql_div (p_cost_per_night p) 100 < b \<and> p_cost_per_night p < 100 * b"
    using maximum_price_sound [of options limit db out rows row] sql_div_100_below by blast
next
  assume "\<not> truthy (get_prop options ''owner_id'') \<and> \<not> truthy (get_prop options ''city'')
        \<and> \<not> truthy (get_prop options ''minimum_rating'')
        \<and> price_readable (get_prop options ''minimum_price_per_night'')
        \<and> price_readable (get_prop options ''maximum_price_per_night'')
        \<and> default_limit limit = JNum n \<and> 0 \<le> sint n"
  then show "fst (getAllProperties pg_query options limit db) =
          ([], Fulfilled (VRows
             (map (\<lambda>p. PropertyRow p (average (ratings_of db p)))
               (take (nat (sint n))
                 (sort_key p_cost_per_night
                   (filter (\<lambda>p. ratings_of db p \<noteq> []
                              \<and> spec_price_test
                                  (price_bound (get_prop options ''minimum_price_per_night''))
                                  (price_bound (get_prop options ''maximum_price_per_night'')) p)
                      (properties db)))))))"
    by (simp add: search_prices)
next
  fix out rows row a b
  assume "get_prop options ''minimum_price_per_night'' = JNum a \<and> a \<noteq> 0
        \<and> get_prop options ''maximum_price_per_night'' = JNum b \<and> b \<noteq> 0
        \<and> fst (getAllProperties pg_query options limit db) = (out, Fulfilled (VRows rows))
        \<and> row \<in> set rows"
  then show "\<exists>p avg. row = PropertyRow p avg \<and> p \<in> set (properties db)
           \<and> sint a < sql_div (p_cost_per_night p) 100 \<and> sql_div (p_cost_per_night p) 100 < sint b
           \<and> 100 * sint a < p_cost_per_night p \<and> p_cost_per_night p < 100 * sint b"
    using price_range_sound [of options a b limit db out rows row] by blast
qed

theorem price_filters_are_strict_witness:
  "fst (getAllProperties pg_query
          [''minimum_price_per_night'' \<mapsto> JNum 100, ''maximum_price_per_night'' \<mapsto> JNum 200]
          JUndefined five_listings)
     = ([], Fulfilled (VRows [PropertyRow (listing 2 1 15000 ''vancouver'') 3]))
   \<and> bound_value [''cost_per_night'', ''/'', ''100'', ''>'']
        (getAllProperties_build
          [''minimum_price_per_night'' \<mapsto> JNum 100, ''maximum_price_per_night'' \<mapsto> JNum 200]
          JUndefined) = Some (JStr ''100'')
   \<and> bound_value [''cost_per_night'', ''/'', ''100'', ''<'']
        (getAllProperties_build
          [''minimum_price_per_night'' \<mapsto> JNum 100, ''maximum_price_per_night'' \<mapsto> JNum 200]
          JUndefined) = Some (JStr ''200'')
   \<and> (\<exists>p avg a. PropertyRow (listing 2 1 15000 ''vancouver'') 3 = PropertyRow p avg
          \<and> p \<in> set (properties five_listings) \<and> price_bound (JNum 100) = Some a
          \<and> a < sql_div (p_cost_per_night p) 100 \<and> 100 * a < p_cost_per_night p)
   \<and> (\<exists>p avg b. PropertyRow (listing 2 1 15000 ''vancouver'') 3 = PropertyRow p avg
          \<and> p \<in> set (properties five_listings) \<and> price_bound (JNum 200) = Some b
          \<and> sql_div (p_cost_per_night p) 100 < b \<and> p_cost_per_night p < 100 * b)
   \<and> (\<exists>p avg. PropertyRow (listing 2 1 15000 ''vancouver'') 3 = PropertyRow p avg
          \<and> p \<in> set (properties five_listings)
          \<and> 100 < sql_div (p_cost_per_night p) 100 \<and> sql_div (p_cost_per_night p) 100 < 200
          \<and> 100 * 100 < p_cost_per_night p \<and> p_cost_per_night p < 100 * 200)
   \<and> fst (getAllProperties pg_query [''minimum_price_per_night'' \<mapsto> JNum 100] JUndefined
          five_listings)
     = ([], Fulfilled (VRows [PropertyRow (listing 2 1 15000 ''vancouver'') 3,
                              PropertyRow (listing 4 2 20000 ''Toronto'') 4,
                              PropertyRow (listing 1 1 25000 ''Vancouver'') (9 / 2)]))"
proof -
  let ?options = "[''minimum_price_per_night'' \<mapsto> JNum 100, ''maximum_price_per_night'' \<mapsto> JNum 200]"
  note T = price_filters_are_strict [of ?options JUndefined five_listings 10]
  have mn: "get_prop ?options ''minimum_price_per_night'' = JNum 100"
    and mx: "get_prop ?options ''maximum_price_per_night'' = JNum 200"
    and f: "\<not> truthy (get_prop ?options ''owner_id'')" "\<not> truthy (get_prop ?options ''city'')"
      "\<not> truthy (get_prop ?options ''minimum_rating'')"
    by (simp_all add: get_prop_def)
  have s: "show_int 100 = ''100''" "show_int 200 = ''200''"
    by (simp_all add: show_int_def show_nat.simps digit_char_def)
  have p: "parse_int_text ''100'' = Some 100" "parse_int_text ''200'' = Some 200"
    using parse_int_text_show_int [of 100] parse_int_text_show_int [of 200] s by simp_all
  have t: "truthy (JNum 100)" "truthy (JNum 200)"
    by simp_all
  have r: "price_readable (JNum 100)" "price_readable (JNum 200)"
    "default_limit JUndefined = JNum 10" "0 \<le> sint (10 :: 54 word)"
    by (simp_all add: price_readable_def s p int4_min_def int4_max_def default_limit_def)
  have 1: "bound_value [''cost_per_night'', ''/'', ''100'', ''>''] (getAllProperties_build ?options JUndefined)
             = Some (JStr ''100'')"
    using T [THEN conjunct1] t by (simp add: mn s)
  have 2: "bound_value [''cost_per_night'', ''/'', ''100'', ''<''] (getAllProperties_build ?options JUndefined)
             = Some (JStr ''200'')"
    using T [THEN conjunct2, THEN conjunct1] t by (simp add: mx s)
  have 5: "fst (getAllProperties pg_query ?options JUndefined five_listings)
     = ([], Fulfilled (VRows [PropertyRow (listing 2 1 15000 ''vancouver'') 3]))"
    using T [THEN conjunct2, THEN conjunct2, THEN conjunct2, THEN conjunct2, THEN conjunct1] f r
    by (simp add: mn mx price_bound_def s p spec_price_test_def five_listings_def ratings_of_def
        sql_div_def average_def)
  have 6: "PropertyRow (listing 2 1 15000 ''vancouver'') 3
             \<in> set [PropertyRow (listing 2 1 15000 ''vancouver'') 3]"
    by simp
  have 3: "\<exists>p avg a. PropertyRow (listing 2 1 15000 ''vancouver'') 3 = PropertyRow p avg
          \<and> p \<in> set (properties five_listings) \<and> price_bound (JNum 100) = Some a
          \<and> a < sql_div (p_cost_per_night p) 100 \<and> 100 * a < p_cost_per_night p"
    using T [THEN conjunct2, THEN conjunct2, THEN conjunct1] t 5 6 unfolding mn by blast
  have 4: "\<exists>p avg b. PropertyRow (listing 2 1 15000 ''vancouver'') 3 = PropertyRow p avg
          \<and> p \<in> set (properties five_listings) \<and> price_bound (JNum 200) = Some b
          \<and> sql_div (p_cost_per_night p) 100 < b \<and> p_cost_per_night p < 100 * b"
    using T [THEN conjunct2, THEN conjunct2, THEN conjunct2, THEN conjunct1] t 5 6 unfolding mx by blast
  have n: "(100 :: 54 word) \<noteq> 0" "(200 :: 54 word) \<noteq> 0"
    and sn: "sint (100 :: 54 word) = 100" "sint (200 :: 54 word) = 200"
    by simp_all
  have 7: "\<exists>p avg. PropertyRow (listing 2 1 15000 ''vancouver'') 3 = PropertyRow p avg
          \<and> p \<in> set (properties five_listings)
          \<and> 100 < sql_div (p_cost_per_night p) 100 \<and> sql_div (p_cost_per_night p) 100 < 200
          \<and> 100 * 100 < p_cost_per_night p \<and> p_cost_per_night p < 100 * 200"
    using T [THEN conjunct2, THEN conjunct2, THEN conjunct2, THEN conjunct2, THEN conjunct2]
      mn mx n 5 6 unfolding sn [symmetric] by blast
  let ?lower = "[''minimum_price_per_night'' \<mapsto> JNum 100]"
  have l: "get_prop ?lower ''minimum_price_per_night'' = JNum 100"
    "get_prop ?lower ''maximum_price_per_night'' = JUndefined"
    "\<not> truthy (get_prop ?lower ''owner_id'')" "\<not> truthy (get_prop ?lower ''city'')"
    "\<not> truthy (get_prop ?lower ''minimum_rating'')"
    by (simp_all add: get_prop_def)
  have ru: "price_readable JUndefined"
    by (simp add: price_readable_def)
  have 8: "fst (getAllProperties pg_query ?lower JUndefined five_listings)
     = ([], Fulfilled (VRows [PropertyRow (listing 2 1 15000 ''vancouver'') 3,
                              PropertyRow (listing 4 2 20000 ''Toronto'') 4,
                              PropertyRow (listing 1 1 25000 ''Vancouver'') (9 / 2)]))"
    using price_filters_are_strict [of ?lower JUndefined five_listings 10,
        THEN conjunct2, THEN conjunct2, THEN conjunct2, THEN conjunct2, THEN conjunct1] l(3-5) r ru
    by (simp add: l(1,2) price_bound_def s p spec_price_test_def five_listings_def ratings_of_def
        sql_div_def average_def)
  from 5 1 2 3 4 7 8 show ?thesis
    by (intro conjI)
qed

subsection \<open>The city filter\<close>

text \<open>
  A text without the three special characters of LIKE, and the test whether one text
  occurs in another as a run of consecutive characters.
\<close>

definition like_plain :: "string \<Rightarrow> bool" where
  "like_plain t = list_all (\<lambda>c. c \<noteq> CHR ''%'' \<and> c \<noteq> CHR ''_'' \<and> c \<noteq> CHR 0x5C) t"

fun contains :: "string \<Rightarrow> string \<Rightarrow> bool" where
  "contains t [] = (t = [])"
| "contains t (c # cs) = (strip_prefix t (c # cs) \<noteq> None \<or> contains t cs)"

text \<open>Lower case of a letter of the basic alphabet; other characters are left alone.\<close>

definition to_lower :: "char \<Rightarrow> char" where
  "to_lower c =
     (case map_of (zip ''ABCDEFGHIJKLMNOPQRSTUVWXYZ'' ''abcdefghijklmnopqrstuvwxyz'') c of
        None \<Rightarrow> c | Some d \<Rightarrow> d)"

lemma strip_prefix_iff: "strip_prefix t s = Some r \<longleftrightarrow> s = t @ r"
  by (induction t s rule: strip_prefix.induct) auto

lemma strip_prefix_None_iff: "strip_prefix t s \<noteq> None \<longleftrightarrow> (\<exists>r. s = t @ r)"
  using strip_prefix_iff [of t s] by (cases "strip_prefix t s") auto

lemma contains_iff: "contains t s \<longleftrightarrow> (\<exists>u v. s = u @ t @ v)"
proof (induction s)
  case Nil
  then show ?case by auto
next
  case (Cons c cs)
  have "(\<exists>u v. c # cs = u @ t @ v) \<longleftrightarrow> (\<exists>v. c # cs = t @ v) \<or> (\<exists>u v. cs = u @ t @ v)"
  proof
    assume "\<exists>u v. c # cs = u @ t @ v"
    then obtain u v where e: "c # cs = u @ t @ v" by blast
    show "(\<exists>v. c # cs = t @ v) \<or> (\<exists>u v. cs = u @ t @ v)"
    proof (cases u)
      case Nil
      with e show ?thesis by auto
    next
      case (Cons d u')
      with e have "cs = u' @ t @ v" by simp
      then show ?thesis by blast
    qed
  next
    assume "(\<exists>v. c # cs = t @ v) \<or> (\<exists>u v. cs = u @ t @ v)"
    then show "\<exists>u v. c # cs = u @ t @ v"
    proof
      assume "\<exists>v. c # cs = t @ v"
      then obtain v where "c # cs = [] @ t @ v" by auto
      then show ?thesis by blast
    next
      assume "\<exists>u v. cs = u @ t @ v"
      then obtain u v where "c # cs = (c # u) @ t @ v" by auto
      then show ?thesis by blast
    qed
  qed
  with Cons show ?case
    by (auto simp: strip_prefix_iff simp del: strip_prefix.simps)
qed

lemma like_match_percent [simp]: "like_match ''%'' s"
  by (induction s) (auto simp: like_match.simps)

lemma like_match_literal:
  "like_plain t \<Longrightarrow>
     like_match (t @ ps) s = (case strip_prefix t s of None \<Rightarrow> False | Some r \<Rightarrow> like_match ps r)"
proof (induction t arbitrary: s)
  case Nil
  then show ?case by simp
next
  case (Cons c t)
  then have c: "c \<noteq> CHR ''%''" "c \<noteq> CHR ''_''" "c \<noteq> CHR 0x5C" and t: "like_plain t"
    by (simp_all add: like_plain_def)
  show ?case
    using c Cons.IH [OF t] by (cases s) (auto simp: like_match.simps)
qed

lemma like_match_substring:
  assumes "like_plain t"
  shows "like_match (CHR ''%'' # t @ ''%'') s = contains t s"
proof (induction s)
  case Nil
  have "like_match (t @ ''%'') [] = (strip_prefix t [] \<noteq> None)"
    by (simp add: like_match_literal [OF assms] split: option.splits)
  moreover have "(strip_prefix t [] \<noteq> None) = (t = [])"
    by (cases t) simp_all
  ultimately show ?case by (simp add: like_match.simps(2) [of "CHR ''%''"])
next
  case (Cons c cs)
  have "like_match (t @ ''%'') (c # cs) = (strip_prefix t (c # cs) \<noteq> None)"
    by (simp add: like_match_literal [OF assms] split: option.splits)
  with Cons show ?case by (simp add: like_match.simps(2) [of "CHR ''%''"])
qed

lemma like_valid_plain_cons: "c \<noteq> CHR 0x5C \<Longrightarrow> like_valid (c # cs) = like_valid cs"
  by (cases cs) simp_all

lemma like_valid_plain: "like_plain t \<Longrightarrow> like_valid (t @ ''%'')"
  by (induction t) (simp_all add: like_plain_def like_valid_plain_cons)

lemma like_valid_pattern: "like_plain t \<Longrightarrow> like_valid (CHR ''%'' # t @ ''%'')"
  by (simp add: like_valid_plain_cons like_valid_plain)

lemma search_city:
  assumes "\<not> truthy (get_prop options ''owner_id'')"
    and "\<not> truthy (get_prop options ''minimum_price_per_night'')"
    and "\<not> truthy (get_prop options ''maximum_price_per_night'')"
    and "\<not> truthy (get_prop options ''minimum_rating'')"
    and "truthy (get_prop options ''city'')"
    and "like_valid (''%'' @ toString (get_prop options ''city'') @ ''%'')"
    and "default_limit limit = JNum n" and "0 \<le> sint n"
  shows "fst (getAllProperties pg_query options limit db) =
     ([], Fulfilled (VRows
        (map (\<lambda>p. PropertyRow p (average (ratings_of db p)))
          (take (nat (sint n))
            (sort_key p_cost_per_night
              (filter (\<lambda>p. ratings_of db p \<noteq> []
                            \<and> like_match (''%'' @ toString (get_prop options ''city'') @ ''%'') (p_city p))
                 (properties db)))))))"
proof -
  have p: "spec_params options limit =
      [JStr (''%'' @ toString (get_prop options ''city'') @ ''%''), JNum n]"
    using assms by (simp add: spec_params_def)
  show ?thesis
    using assms
    by (simp add: getAllProperties_pg parse_without_owner p run_search_def search_ixs_def
        params_fit_def read_having_def read_limit_def int_param_JNum number_fits_int8 cnt_def
        upt_rec)
qed

text \<open>
  C4, as the code has it. The condition is \<open>city LIKE $i\<close>, and the parameter it is bound
  to is the city text with \<open>%\<close> on both sides. LIKE compares characters as they are: for a
  city text without the special characters of LIKE, a property passes the condition
  exactly when its city column contains the text as a run of consecutive characters, in
  the same letter case; and every row of a returned list is such a property.
\<close>

theorem city_filter_is_case_sensitive:
  assumes "truthy (get_prop options ''city'')"
  shows "\<exists>i. bound_index [''city'', ''LIKE''] (getAllProperties_build options limit) = Some i
     \<and> nth_param (queryParams (getAllProperties_build options limit)) i =
         Some (JStr (''%'' @ toString (get_prop options ''city'') @ ''%''))
     \<and> (like_plain (toString (get_prop options ''city'')) \<longrightarrow>
          (\<exists>t. read_cond (queryParams (getAllProperties_build options limit)) (CityLike i) = Inr t
             \<and> (\<forall>p. passes t p \<longleftrightarrow> (\<exists>u v. p_city p = u @ toString (get_prop options ''city'') @ v)))
          \<and> (\<forall>out rows row.
                fst (getAllProperties pg_query options limit db) = (out, Fulfilled (VRows rows))
                \<and> row \<in> set rows \<longrightarrow>
                (\<exists>p avg u v. row = PropertyRow p avg
                   \<and> p_city p = u @ toString (get_prop options ''city'') @ v)))"
proof -
  let ?b = "getAllProperties_build options limit"
  let ?t = "toString (get_prop options ''city'')"
  let ?pat = "''%'' @ ?t @ ''%''"
  have "bound_value [''city'', ''LIKE''] ?b = Some (JStr ?pat)"
    using assms by (simp add: bound_city)
  then obtain i where i: "bound_index [''city'', ''LIKE''] ?b = Some i"
    and v: "nth_param (queryParams ?b) i = Some (JStr ?pat)"
    by (auto simp: bound_value_def split: option.splits)
  from v have nth: "queryParams ?b ! (i - 1) = JStr ?pat"
    by (simp add: nth_param_def split: if_splits)
  have sem: "passes (CityMatches (Some ?pat)) p \<longleftrightarrow> (\<exists>u v. p_city p = u @ ?t @ v)"
    if "like_plain ?t" for p
    using like_match_substring [OF that] by (simp add: contains_iff)
  have rd: "read_cond (queryParams ?b) (CityLike i) = Inr (CityMatches (Some ?pat))"
    if "like_plain ?t"
    using like_valid_pattern [OF that] nth by simp
  have rows: "\<exists>p avg u v. row = PropertyRow p avg \<and> p_city p = u @ ?t @ v"
    if plain: "like_plain ?t"
      and res: "fst (getAllProperties pg_query options limit db) = (out, Fulfilled (VRows rows))"
      and row: "row \<in> set rows" for out rows row
  proof -
    let ?mn = "truthy (get_prop options ''minimum_price_per_night'')"
    let ?mx = "truthy (get_prop options ''maximum_price_per_night'')"
    let ?r = "truthy (get_prop options ''minimum_rating'')"
    have no_owner: "\<not> truthy (get_prop options ''owner_id'')"
    proof
      assume "truthy (get_prop options ''owner_id'')"
      with assms res show False
        by (simp add: getAllProperties_pg parse_owner_and_more)
    qed
    define q where "q = \<lparr> conds = (if True then [CityLike 1] else []) @
                     (if ?mn then [CostAbove (Suc (cnt True))] else []) @
                     (if ?mx then [CostBelow (Suc (cnt True + cnt ?mn))] else []),
            having_ix = (if ?r then Some (Suc (cnt True + cnt ?mn + cnt ?mx)) else None),
            limit_ix = Suc (cnt True + cnt ?mn + cnt ?mx + cnt ?r) \<rparr>"
    have pq: "parse_search (statement_words False True ?mn ?mx ?r) = Some q"
      unfolding q_def by (rule parse_without_owner)
    have cq: "\<exists>cs. conds q = CityLike 1 # cs"
      by (simp add: q_def)
    have run: "run_search db q (spec_params options limit) = Inr rows"
      using res assms no_owner
      by (simp add: getAllProperties_pg pq split: sum.splits)
    from run_search_sound [OF run row]
    obtain p ts where r: "row = PropertyRow p (average (ratings_of db p))"
      and ts: "read_conds (spec_params options limit) (conds q) = Inr ts"
      and pass: "list_all (\<lambda>t. passes t p) ts"
      by blast
    from cq obtain cs where cs: "conds q = CityLike 1 # cs" by blast
    have "spec_params options limit ! (1 - 1) = JStr ?pat"
      using assms no_owner by (simp add: spec_params_def)
    then have "read_cond (spec_params options limit) (CityLike 1) = Inr (CityMatches (Some ?pat))"
      using like_valid_pattern [OF plain] by simp
    with ts cs pass have "passes (CityMatches (Some ?pat)) p"
      by (auto split: sum.splits)
    with sem [OF plain] r show ?thesis by blast
  qed
  from i v sem rd rows show ?thesis by blast
qed


lemma five_listings_city:
  assumes "like_valid (''%'' @ t @ ''%'')" and "t \<noteq> []"
  shows "fst (getAllProperties pg_query [''city'' \<mapsto> JStr t] JUndefined five_listings) =
     ([], Fulfilled (VRows
        (map (\<lambda>p. PropertyRow p (average (ratings_of five_listings p)))
          (take 10
            (sort_key p_cost_per_night
              (filter (\<lambda>p. ratings_of five_listings p \<noteq> [] \<and> like_match (''%'' @ t @ ''%'') (p_city p))
                 (properties five_listings)))))))"
  using assms
    search_city [of "[''city'' \<mapsto> JStr t]" JUndefined 10 five_listings]
  by (simp add: get_prop_def default_limit_def)

theorem city_filter_is_case_sensitive_witness:
  "truthy (get_prop [''city'' \<mapsto> JStr ''Tor''] ''city'') \<and> like_plain ''Tor''
   \<and> fst (getAllProperties pg_query [''city'' \<mapsto> JStr ''Tor''] JUndefined five_listings) =
       ([], Fulfilled (VRows [PropertyRow (listing 3 2 10000 ''Toronto'') 5,
                              PropertyRow (listing 4 2 20000 ''Toronto'') 4]))
   \<and> (\<exists>p avg u v. PropertyRow (listing 3 2 10000 ''Toronto'') 5 = PropertyRow p avg
          \<and> p_city p = u @ ''Tor'' @ v)"
proof -
  let ?options = "[''city'' \<mapsto> JStr ''Tor'']"
  have a: "truthy (get_prop ?options ''city'')" and t: "toString (get_prop ?options ''city'') = ''Tor''"
    by (simp_all add: get_prop_def)
  have b: "like_plain ''Tor''"
    by (simp add: like_plain_def)
  have c: "fst (getAllProperties pg_query ?options JUndefined five_listings) =
       ([], Fulfilled (VRows [PropertyRow (listing 3 2 10000 ''Toronto'') 5,
                              PropertyRow (listing 4 2 20000 ''Toronto'') 4]))"
    by (simp add: five_listings_city)
       (simp add: five_listings_def ratings_of_def average_def like_match.simps)
  have d: "PropertyRow (listing 3 2 10000 ''Toronto'') 5
             \<in> set [PropertyRow (listing 3 2 10000 ''Toronto'') 5,
                     PropertyRow (listing 4 2 20000 ''Toronto'') 4]"
    by simp
  from city_filter_is_case_sensitive [OF a, of JUndefined five_listings, unfolded t] b c d
  have "\<exists>p avg u v. PropertyRow (listing 3 2 10000 ''Toronto'') 5 = PropertyRow p avg
          \<and> p_city p = u @ ''Tor'' @ v"
    by blast
  with a b c show ?thesis by blast
qed

text \<open>
  C4 as stated fails: LIKE is not ILIKE. \<open>Vancouver\<close> and \<open>vancouver\<close> differ in letter
  case only, both properties have reviews, and a search for the city \<open>van\<close> returns the
  second and not the first.
\<close>

theorem case_insensitive_city_counterexample:
  "map to_lower ''Vancouver'' = map to_lower ''vancouver''
   \<and> listing 1 1 25000 ''Vancouver'' \<in> set (properties five_listings)
   \<and> ratings_of five_listings (listing 1 1 25000 ''Vancouver'') \<noteq> []
   \<and> fst (getAllProperties pg_query [''city'' \<mapsto> JStr ''van''] JUndefined five_listings) =
       ([], Fulfilled (VRows [PropertyRow (listing 2 1 15000 ''vancouver'') 3]))"
  by (simp add: five_listings_city to_lower_def)
     (simp add: five_listings_def ratings_of_def average_def like_match.simps)

section \<open>What the caller sees when the database fails\<close>

text \<open>What the database answers to the statement of \<open>getAllProperties\<close>.\<close>

lemma pg_query_search:
  "pg_query (queryString (getAllProperties_build options limit)) ps db =
     (case parse_search
             (statement_words (truthy (get_prop options ''owner_id''))
                (truthy (get_prop options ''city''))
                (truthy (get_prop options ''minimum_price_per_night''))
                (truthy (get_prop options ''maximum_price_per_night''))
                (truthy (get_prop options ''minimum_rating''))) of
        None \<Rightarrow> (Inl (Error ''syntax error''), db)
      | Some q \<Rightarrow> (run_search db q ps, db))"
  by (simp add: pg_query_def Let_def words_build statement_words_not_users)

text \<open>
  C5. Each operation sends one statement with one parameter list to the pool. When the
  pool answers that call with an error, be it an error of this statement alone (a
  constraint that is violated, a text the database cannot read) or a failure of the
  connection, \<open>getAllProperties\<close> writes the message of the error to the console and
  fulfils its promise with \<open>undefined\<close>; the five other operations write the message and
  fulfil with \<open>null\<close>. Whatever the pool answers, the promise of each operation is
  fulfilled, never rejected: the error does not reach the caller.
\<close>

theorem database_error_sentinels:
  "(\<forall>err. fst (pool (queryString (getAllProperties_build options limit))
                (queryParams (getAllProperties_build options limit)) db) = Inl err \<longrightarrow>
      fst (getAllProperties pool options limit db) = ([message err], Fulfilled VUndefined))
   \<and> (\<forall>err. fst (pool getUserWithEmail_queryString [email] db) = Inl err \<longrightarrow>
      fst (getUserWithEmail pool email db) = ([message err], Fulfilled VNull))
   \<and> (\<forall>err. fst (pool getUserWithId_queryString [id'] db) = Inl err \<longrightarrow>
      fst (getUserWithId pool id' db) = ([message err], Fulfilled VNull))
   \<and> (\<forall>err. fst (pool addUser_queryString
                [get_prop user ''name'', get_prop user ''password'', get_prop user ''email''] db)
             = Inl err \<longrightarrow>
      fst (addUser pool user db) = ([message err], Fulfilled VNull))
   \<and> (\<forall>err. fst (pool getAllReservations_queryString [guest_id, default_limit limit] db) = Inl err \<longrightarrow>
      fst (getAllReservations pool guest_id limit db) = ([message err], Fulfilled VNull))
   \<and> (\<forall>err. fst (pool addProperty_queryString (map (get_prop property) propertyValues) db)
             = Inl err \<longrightarrow>
      fst (addProperty pool property db) = ([message err], Fulfilled VNull))
   \<and> (\<exists>out v. fst (getAllProperties pool options limit db) = (out, Fulfilled v))
   \<and> (\<exists>out v. fst (getUserWithEmail pool email db) = (out, Fulfilled v))
   \<and> (\<exists>out v. fst (getUserWithId pool id' db) = (out, Fulfilled v))
   \<and> (\<exists>out v. fst (addUser pool user db) = (out, Fulfilled v))
   \<and> (\<exists>out v. fst (getAllReservations pool guest_id limit db) = (out, Fulfilled v))
   \<and> (\<exists>out v. fst (addProperty pool property db) = (out, Fulfilled v))"
proof -
  have 1: "fst (getAllProperties pool options limit db) = ([message err], Fulfilled VUndefined)"
    if "fst (pool (queryString (getAllProperties_build options limit))
                (queryParams (getAllProperties_build options limit)) db) = Inl err" for err
    using that by (simp add: getAllProperties_def Let_def split_beta promise_defs)
  have 2: "fst (getUserWithEmail pool email db) = ([message err], Fulfilled VNull)"
    if "fst (pool getUserWithEmail_queryString [email] db) = Inl err" for err
    using that by (simp add: getUserWithEmail_def Let_def split_beta promise_defs)
  have 3: "fst (getUserWithId pool id' db) = ([message err], Fulfilled VNull)"
    if "fst (pool getUserWithId_queryString [id'] db) = Inl err" for err
    using that by (simp add: getUserWithId_def Let_def split_beta promise_defs)
  have 4: "fst (addUser pool user db) = ([message err], Fulfilled VNull)"
    if "fst (pool addUser_queryString
                [get_prop user ''name'', get_prop user ''password'', get_prop user ''email''] db)
             = Inl err" for err
    using that by (simp add: addUser_def Let_def split_beta promise_defs)
  have 5: "fst (getAllReservations pool guest_id limit db) = ([message err], Fulfilled VNull)"
    if "fst (pool getAllReservations_queryString [guest_id, default_limit limit] db) = Inl err" for err
    using that by (simp add: getAllReservations_def Let_def split_beta promise_defs)
  have 6: "fst (addProperty pool property db) = ([message err], Fulfilled VNull)"
    if "fst (pool addProperty_queryString (map (get_prop property) propertyValues) db) = Inl err"
    for err
    using that by (simp add: addProperty_def Let_def split_beta promise_defs)
  show ?thesis
    by (intro conjI allI impI operations_fulfil; (erule 1 2 3 4 5 6)?)
qed

theorem database_error_sentinels_witness:
  "fst (getAllProperties pg_query [''owner_id'' \<mapsto> JNum 1, ''city'' \<mapsto> JStr ''Vancouver'']
          JUndefined five_listings)
     = ([''syntax error''], Fulfilled VUndefined)
   \<and> fst (getUserWithId pg_query (JStr ''abc'') two_users)
     = ([''invalid input syntax for type integer: abc''], Fulfilled VNull)
   \<and> fst (addUser pg_query
          [''name'' \<mapsto> JStr ''Ann'', ''password'' \<mapsto> JStr ''z'', ''email'' \<mapsto> JStr ''ann@example.com'']
          two_users)
     = ([''duplicate key value violates unique constraint''], Fulfilled VNull)
   \<and> fst (getUserWithEmail (failing_on getUserWithEmail_queryString pg_query)
          (JStr ''ann@example.com'') two_users)
     = ([''Connection terminated unexpectedly''], Fulfilled VNull)
   \<and> fst (getAllReservations (failing_on getAllReservations_queryString pg_query)
          (JNum 1) JUndefined two_users)
     = ([''Connection terminated unexpectedly''], Fulfilled VNull)
   \<and> fst (addProperty (failing_on addProperty_queryString pg_query)
          [''title'' \<mapsto> JStr ''Hut''] two_users)
     = ([''Connection terminated unexpectedly''], Fulfilled VNull)"
proof -
  let ?options = "[''owner_id'' \<mapsto> JNum 1, ''city'' \<mapsto> JStr ''Vancouver'']"
  let ?user = "[''name'' \<mapsto> JStr ''Ann'', ''password'' \<mapsto> JStr ''z'', ''email'' \<mapsto> JStr ''ann@example.com'']"
  let ?property = "[''title'' \<mapsto> JStr ''Hut'']"
  have a: "fst (pg_query (queryString (getAllProperties_build ?options JUndefined))
                (queryParams (getAllProperties_build ?options JUndefined)) five_listings)
             = Inl (Error ''syntax error'')"
    by (simp add: pg_query_search get_prop_def parse_owner_and_more)
  have b: "fst (pg_query getUserWithId_queryString [JStr ''abc''] two_users)
             = Inl (Error ''invalid input syntax for type integer: abc'')"
    by (simp add: pg_query_user_by_id select_user_by_id_def int_param_def parse_int_text_def
        parse_nat_text_def is_digit_def)
  have c: "fst (pg_query addUser_queryString
                [get_prop ?user ''name'', get_prop ?user ''password'', get_prop ?user ''email'']
                two_users)
             = Inl (Error ''duplicate key value violates unique constraint'')"
    by (simp add: pg_query_insert_user insert_user_def get_prop_def two_users_def)
  have d: "fst (failing_on getUserWithEmail_queryString pg_query getUserWithEmail_queryString
                [JStr ''ann@example.com''] two_users)
             = Inl (Error ''Connection terminated unexpectedly'')"
    "fst (failing_on getAllReservations_queryString pg_query getAllReservations_queryString
                [JNum 1, default_limit JUndefined] two_users)
             = Inl (Error ''Connection terminated unexpectedly'')"
    "fst (failing_on addProperty_queryString pg_query addProperty_queryString
                (map (get_prop ?property) propertyValues) two_users)
             = Inl (Error ''Connection terminated unexpectedly'')"
    by (simp_all add: failing_on_def)
  note P = database_error_sentinels
    [where pool = pg_query and options = ?options and limit = JUndefined and user = ?user
       and id' = "JStr ''abc''"]
  note F = database_error_sentinels
    [where email = "JStr ''ann@example.com''" and guest_id = "JNum 1" and limit = JUndefined
       and property = ?property and db = two_users]
  have 1: "fst (getAllProperties pg_query ?options JUndefined five_listings)
             = ([message (Error ''syntax error'')], Fulfilled VUndefined)"
    using P [where db = five_listings, THEN conjunct1] a by blast
  have 2: "fst (getUserWithId pg_query (JStr ''abc'') two_users)
             = ([message (Error ''invalid input syntax for type integer: abc'')], Fulfilled VNull)"
    using P [where db = two_users, THEN conjunct2, THEN conjunct2, THEN conjunct1] b by blast
  have 3: "fst (addUser pg_query ?user two_users)
             = ([message (Error ''duplicate key value violates unique constraint'')], Fulfilled VNull)"
    using P [where db = two_users, THEN conjunct2, THEN conjunct2, THEN conjunct2, THEN conjunct1] c
    by blast
  have 4: "fst (getUserWithEmail (failing_on getUserWithEmail_queryString pg_query)
              (JStr ''ann@example.com'') two_users)
             = ([message (Error ''Connection terminated unexpectedly'')], Fulfilled VNull)"
    using F [where pool = "failing_on getUserWithEmail_queryString pg_query",
             THEN conjunct2, THEN conjunct1] d(1)
    by blast
  have 5: "fst (getAllReservations (failing_on getAllReservations_queryString pg_query)
              (JNum 1) JUndefined two_users)
             = ([message (Error ''Connection terminated unexpectedly'')], Fulfilled VNull)"
    using F [where pool = "failing_on getAllReservations_queryString pg_query",
             THEN conjunct2, THEN conjunct2, THEN conjunct2, THEN conjunct2, THEN conjunct1] d(2)
    by blast
  have 6: "fst (addProperty (failing_on addProperty_queryString pg_query) ?property two_users)
             = ([message (Error ''Connection terminated unexpectedly'')], Fulfilled VNull)"
    using F [where pool = "failing_on addProperty_queryString pg_query",
             THEN conjunct2, THEN conjunct2, THEN conjunct2, THEN conjunct2, THEN conjunct2,
             THEN conjunct1] d(3)
    by blast
  from 1 2 3 4 5 6 show ?thesis
    by simp
qed

section \<open>owner_id together with another condition\<close>

lemma owner_id_then_where:
  assumes "truthy (get_prop options ''owner_id'')"
    and "truthy (get_prop options ''city'') \<or> truthy (get_prop options ''minimum_price_per_night'')
         \<or> truthy (get_prop options ''maximum_price_per_night'')"
  shows "keyword_count ''WHERE'' (queryString (getAllProperties_build options limit)) = 2"
    and "fst (getAllProperties pg_query options limit db) = ([''syntax error''], Fulfilled VUndefined)"
  using assms
  by (auto simp: where_count_build cnt_def getAllProperties_pg parse_owner_and_more)

text \<open>
  C1, where the code departs from it. The block for \<open>owner_id\<close> appends its condition
  under the connective WHERE and leaves the connective as it is (the blocks for \<open>city\<close>
  and \<open>minimum_price_per_night\<close> set it to AND afterwards). With \<open>owner_id\<close> and
  \<open>city\<close> both truthy the city condition is therefore introduced by a second WHERE, not
  by AND; the database cannot read the statement, and the promise is fulfilled with
  \<open>undefined\<close>.
\<close>

theorem owner_id_and_city_two_where:
  "sql_words (queryString (getAllProperties_build
       [''owner_id'' \<mapsto> JNum 1, ''city'' \<mapsto> JStr ''Vancouver''] JUndefined)) =
     select_words @
     [''WHERE'', ''owner_id'', ''='', ''$1'', ''WHERE'', ''city'', ''LIKE'', ''$2'',
      ''GROUP'', ''BY'', ''properties.id'', ''ORDER'', ''BY'', ''cost_per_night'', ''LIMIT'', ''$3'', '';'']
   \<and> keyword_count ''WHERE'' (queryString (getAllProperties_build
       [''owner_id'' \<mapsto> JNum 1, ''city'' \<mapsto> JStr ''Vancouver''] JUndefined)) = 2
   \<and> keyword_count ''AND'' (queryString (getAllProperties_build
       [''owner_id'' \<mapsto> JNum 1, ''city'' \<mapsto> JStr ''Vancouver''] JUndefined)) = 0
   \<and> fst (getAllProperties pg_query [''owner_id'' \<mapsto> JNum 1, ''city'' \<mapsto> JStr ''Vancouver'']
          JUndefined five_listings) = ([''syntax error''], Fulfilled VUndefined)"
proof -
  have "fst (getAllProperties pg_query [''owner_id'' \<mapsto> JNum 1, ''city'' \<mapsto> JStr ''Vancouver'']
          JUndefined five_listings) = ([''syntax error''], Fulfilled VUndefined)"
    by (rule owner_id_then_where) (simp_all add: get_prop_def)
  then show ?thesis
    by (simp add: keyword_count_def words_build statement_words_def select_words_def get_prop_def
        cnt_def show_nat.simps digit_char_def)
qed

end
